theory Spec2Isabelle
  imports Main
begin

section \<open>The JWT validator of tink (python/tink/jwt/\_jwt\_validator.py)\<close>

subsection \<open>Time: the datetime module of Python\<close>

text \<open>
  \<^verbatim>\<open>validate\<close> computes with \<^verbatim>\<open>datetime.datetime\<close> and \<^verbatim>\<open>datetime.timedelta\<close> values and
  their operators, so the model has the operators as Python defines them.

  A \<^verbatim>\<open>timedelta\<close> is its length in microseconds (its resolution), a signed integer.
  Python bounds a timedelta by a thousand million days; the model has every integer, and
  an addition whose result is a datetime stays far inside that bound.

  A \<^verbatim>\<open>tzinfo\<close> object is its identity, a number that two references share exactly when
  they refer to the same object (Python's \<^verbatim>\<open>is\<close>), and its method \<^verbatim>\<open>utcoffset\<close>, which
  is given a datetime of this zone, that is its wall-clock time and its \<^verbatim>\<open>fold\<close>, and
  returns \<^verbatim>\<open>None\<close> or the offset from UTC (the \<^verbatim>\<open>tzinfo\<close> protocol of Python).

  A \<^verbatim>\<open>datetime\<close> is its calendar fields from year to microsecond, counted as the
  microseconds of wall-clock time since 0001-01-01 00:00:00, its \<^verbatim>\<open>fold\<close> (which of the
  two occurrences of a wall-clock time that a zone repeats), and its \<^verbatim>\<open>tzinfo\<close>
  attribute, \<open>None\<close> or a \<^verbatim>\<open>tzinfo\<close> object. The wall-clock times of
  \<^verbatim>\<open>datetime\<close> run from \<^verbatim>\<open>datetime.min\<close>, which is 0, to \<^verbatim>\<open>datetime.max\<close>, the last
  microsecond of the year 9999, day 3652059 of the calendar.
\<close>

type_synonym timedelta = int

datatype tzinfo = Tzinfo (tz_id: nat) (tz_utcoffset: "int \<Rightarrow> bool \<Rightarrow> timedelta option")

record datetime =
  wall :: int
  fold :: bool
  tzinfo :: "tzinfo option"


definition minutes :: "int \<Rightarrow> timedelta" where
  "minutes n = n * 60000000"

definition hours :: "int \<Rightarrow> timedelta" where
  "hours n = n * 3600000000"

definition days :: "int \<Rightarrow> timedelta" where
  "days n = n * 86400000000"

text \<open>The first wall-clock time after \<^verbatim>\<open>datetime.max\<close>.\<close>

definition MAX_WALL :: int where
  "MAX_WALL = days 3652059"

text \<open>\<^verbatim>\<open>_MAX_CLOCK_SKEW = datetime.timedelta(minutes=10)\<close>\<close>

definition MAX_CLOCK_SKEW :: timedelta where
  "MAX_CLOCK_SKEW = minutes 10"

subsection \<open>Errors\<close>

text \<open>
  The exceptions that the module raises, and the two that the datetime operators raise:
  \<^verbatim>\<open>OverflowError\<close> when arithmetic leaves the range of \<^verbatim>\<open>datetime\<close>, \<^verbatim>\<open>TypeError\<close> when a
  naive and an aware datetime are compared. \<^verbatim>\<open>ValueError\<close> carries the message of the
  source. \<^verbatim>\<open>JwtInvalidError\<close> carries one reason; each constructor stands for one message
  of \<^verbatim>\<open>validate\<close>, its arguments being the values the source formats into the message:
  \<^item> \<open>MissingExpiration\<close>: 'token is missing an expiration'
  \<^item> \<open>Expired e\<close>: 'token has expired since e'
  \<^item> \<open>NotYetValid n\<close>: 'token cannot be used before n'
  \<^item> \<open>MissingIat\<close>: 'token is missing iat claim'
  \<^item> \<open>IatInFuture i\<close>: 'token has a invalid iat claim in the future: i'
  \<^item> \<open>MissingTypeHeader x\<close>: 'invalid JWT; missing expected type header x.'
  \<^item> \<open>WrongTypeHeader x y\<close>: 'invalid JWT; expected type header x, but got y'
  \<^item> \<open>UnexpectedTypeHeader\<close>: 'invalid JWT; token has type\_header set, but validator not.'
  \<^item> \<open>MissingIssuer x\<close>: 'invalid JWT; missing expected issuer x.'
  \<^item> \<open>WrongIssuer x y\<close>: 'invalid JWT; expected issuer x, but got y'
  \<^item> \<open>UnexpectedIssuer\<close>: 'invalid JWT; token has issuer set, but validator not.'
  \<^item> \<open>MissingAudience x\<close>: 'invalid JWT; missing expected audience x.'
  \<^item> \<open>UnexpectedAudience\<close>: 'invalid JWT; token has audience set, but validator not.'
\<close>

datatype reason =
    MissingExpiration
  | Expired datetime
  | NotYetValid datetime
  | MissingIat
  | IatInFuture datetime
  | MissingTypeHeader string
  | WrongTypeHeader string string
  | UnexpectedTypeHeader
  | MissingIssuer string
  | WrongIssuer string string
  | UnexpectedIssuer
  | MissingAudience string
  | UnexpectedAudience

datatype error = ValueError string | JwtInvalidError reason | TypeError | OverflowError

subsection \<open>The operators of datetime\<close>

text \<open>
  \<^verbatim>\<open>d.utcoffset()\<close>: \<^verbatim>\<open>None\<close> without a \<^verbatim>\<open>tzinfo\<close>, else what the \<^verbatim>\<open>tzinfo\<close> returns for
  \<open>d\<close>. A datetime is aware when this is not \<^verbatim>\<open>None\<close>, and naive otherwise; the instant
  of an aware datetime on the UTC time line is its wall-clock time minus its offset.
\<close>

definition utcoffset :: "datetime \<Rightarrow> timedelta option" where
  "utcoffset d =
    (case tzinfo d of None \<Rightarrow> None | Some z \<Rightarrow> tz_utcoffset z (wall d) (fold d))"

definition instant :: "datetime \<Rightarrow> int option" where
  "instant d = (case utcoffset d of None \<Rightarrow> None | Some off \<Rightarrow> Some (wall d - off))"

text \<open>
  \<^verbatim>\<open>datetime.__add__\<close> with a timedelta: the timedelta is added to the wall-clock time;
  the result keeps the \<^verbatim>\<open>tzinfo\<close> and has \<^verbatim>\<open>fold\<close> 0, and the addition raises
  \<^verbatim>\<open>OverflowError\<close> when the result is outside the range of \<^verbatim>\<open>datetime\<close>. No offset
  is consulted. \<^verbatim>\<open>datetime.__sub__\<close> with a timedelta is the addition of its negation.
\<close>

definition datetime_add :: "datetime \<Rightarrow> timedelta \<Rightarrow> error + datetime" where
  "datetime_add d td =
    (let w = wall d + td in
     if 0 \<le> w \<and> w < MAX_WALL then Inr (d\<lparr>wall := w, fold := False\<rparr>)
     else Inl OverflowError)"

definition datetime_sub :: "datetime \<Rightarrow> timedelta \<Rightarrow> error + datetime" where
  "datetime_sub d td = datetime_add d (- td)"

text \<open>
  The comparison of two datetimes, \<^verbatim>\<open>datetime._cmp\<close>. When both have the same \<^verbatim>\<open>tzinfo\<close>
  object, or both have none, the wall-clock times are compared and no offset is
  consulted. Otherwise the offsets are taken: when they are equal (also when both are
  \<^verbatim>\<open>None\<close>) the wall-clock times are compared; when one of them is \<^verbatim>\<open>None\<close> an ordering
  comparison raises \<^verbatim>\<open>TypeError\<close>; else the instants are compared. \<open>comparison_keys\<close>
  gives the two numbers that end up compared.
\<close>

definition same_tzinfo :: "datetime \<Rightarrow> datetime \<Rightarrow> bool" where
  "same_tzinfo a b =
    (case tzinfo a of
       None \<Rightarrow> (case tzinfo b of None \<Rightarrow> True | Some y \<Rightarrow> False)
     | Some x \<Rightarrow> (case tzinfo b of None \<Rightarrow> False | Some y \<Rightarrow> tz_id x = tz_id y))"

definition comparison_keys :: "datetime \<Rightarrow> datetime \<Rightarrow> error + int \<times> int" where
  "comparison_keys a b =
    (if same_tzinfo a b then Inr (wall a, wall b)
     else if utcoffset a = utcoffset b then Inr (wall a, wall b)
     else
       (case utcoffset a of
          None \<Rightarrow> Inl TypeError
        | Some x \<Rightarrow>
            (case utcoffset b of
               None \<Rightarrow> Inl TypeError
             | Some y \<Rightarrow> Inr (wall a - x, wall b - y))))"

text \<open>\<^verbatim>\<open>a <= b\<close> and \<^verbatim>\<open>a > b\<close>.\<close>

definition datetime_le :: "datetime \<Rightarrow> datetime \<Rightarrow> error + bool" where
  "datetime_le a b =
    (case comparison_keys a b of Inl e \<Rightarrow> Inl e | Inr (x, y) \<Rightarrow> Inr (x \<le> y))"

definition datetime_gt :: "datetime \<Rightarrow> datetime \<Rightarrow> error + bool" where
  "datetime_gt a b =
    (case comparison_keys a b of Inl e \<Rightarrow> Inl e | Inr (x, y) \<Rightarrow> Inr (x > y))"

text \<open>
  \<^verbatim>\<open>datetime.timezone.utc\<close>, the one object of its kind: its offset is zero for every
  datetime. \<open>utc w\<close> is the datetime in that zone at the wall-clock time \<open>w\<close>.
\<close>

definition timezone_utc :: tzinfo where
  "timezone_utc = Tzinfo 0 (\<lambda>w f. Some 0)"

definition utc :: "int \<Rightarrow> datetime" where
  "utc w = \<lparr>wall = w, fold = False, tzinfo = Some timezone_utc\<rparr>"

subsection \<open>The policy: class JwtValidator\<close>

text \<open>
  The private attributes of the class. Each field has the name of the accessor method
  that returns it unchanged (\<^verbatim>\<open>def clock_skew(self): return self._clock_skew\<close>), so the
  selector of the record is the accessor.
\<close>

record JwtValidator =
  expected_type_header :: "string option"
  expected_issuer :: "string option"
  expected_audience :: "string option"
  ignore_type_header :: bool
  ignore_issuer :: bool
  ignore_audiences :: bool
  allow_missing_expiration :: bool
  expect_issued_in_the_past :: bool
  clock_skew :: timedelta
  fixed_now :: "datetime option"

text \<open>The presence accessors test \<^verbatim>\<open>is not None\<close>.\<close>

definition has_expected_type_header :: "JwtValidator \<Rightarrow> bool" where
  "has_expected_type_header v = (expected_type_header v \<noteq> None)"

definition has_expected_issuer :: "JwtValidator \<Rightarrow> bool" where
  "has_expected_issuer v = (expected_issuer v \<noteq> None)"

definition has_expected_audience :: "JwtValidator \<Rightarrow> bool" where
  "has_expected_audience v = (expected_audience v \<noteq> None)"

definition has_fixed_now :: "JwtValidator \<Rightarrow> bool" where
  "has_fixed_now v = (fixed_now v \<noteq> None)"

text \<open>
  Python's truth value of the constructor's arguments, which \<^verbatim>\<open>__init__\<close> tests with
  \<^verbatim>\<open>if x and ...\<close> and \<^verbatim>\<open>if x:\<close>. An \<^verbatim>\<open>Optional[str]\<close> is false when it is \<^verbatim>\<open>None\<close> or the
  empty string; an \<^verbatim>\<open>Optional[timedelta]\<close> is false when it is \<^verbatim>\<open>None\<close> or the zero
  duration; a datetime is always true, so an \<^verbatim>\<open>Optional[datetime]\<close> is false only when
  it is \<^verbatim>\<open>None\<close>; a \<^verbatim>\<open>tzinfo\<close> attribute is false only when it is \<^verbatim>\<open>None\<close>: the test
  of the constructor does not call \<^verbatim>\<open>utcoffset\<close>.
\<close>

definition truthy_str :: "string option \<Rightarrow> bool" where
  "truthy_str s = (case s of None \<Rightarrow> False | Some x \<Rightarrow> x \<noteq> [])"

definition truthy_timedelta :: "timedelta option \<Rightarrow> bool" where
  "truthy_timedelta d = (case d of None \<Rightarrow> False | Some x \<Rightarrow> x \<noteq> 0)"

definition truthy_tzinfo :: "tzinfo option \<Rightarrow> bool" where
  "truthy_tzinfo z = (z \<noteq> None)"

text \<open>
  \<^verbatim>\<open>JwtValidator.__init__\<close>, lines 37 to 74. The arguments are keyword-only in the
  source and are taken here in the order of its signature. The raises come in the order
  of the source; the attribute assignments between them have no effect on which raise is
  reached, so the object is built once at the end.
\<close>

definition JwtValidator_init ::
  "string option \<Rightarrow> string option \<Rightarrow> string option \<Rightarrow> bool \<Rightarrow> bool \<Rightarrow> bool \<Rightarrow> bool \<Rightarrow> bool
    \<Rightarrow> timedelta option \<Rightarrow> datetime option \<Rightarrow> error + JwtValidator" where
  "JwtValidator_init expected_type_header' expected_issuer' expected_audience'
      ignore_type_header' ignore_issuer' ignore_audiences'
      allow_missing_expiration' expect_issued_in_the_past' clock_skew' fixed_now' =
    (if truthy_str expected_type_header' \<and> ignore_type_header' then
       Inl (ValueError ''expected_type_header and ignore_type_header cannot be used together'')
     else if truthy_str expected_issuer' \<and> ignore_issuer' then
       Inl (ValueError ''expected_issuer and ignore_issuer cannot be used together'')
     else if truthy_str expected_audience' \<and> ignore_audiences' then
       Inl (ValueError ''expected_audience and ignore_audiences cannot be used together'')
     else if truthy_timedelta clock_skew'
             \<and> (case clock_skew' of Some cs \<Rightarrow> cs > MAX_CLOCK_SKEW | None \<Rightarrow> False) then
       Inl (ValueError ''clock skew too large, max is 10 minutes'')
     else if (case fixed_now' of Some d \<Rightarrow> \<not> truthy_tzinfo (tzinfo d) | None \<Rightarrow> False) then
       Inl (ValueError ''fixed_now without tzinfo'')
     else
       Inr \<lparr> expected_type_header = expected_type_header',
             expected_issuer = expected_issuer',
             expected_audience = expected_audience',
             ignore_type_header = ignore_type_header',
             ignore_issuer = ignore_issuer',
             ignore_audiences = ignore_audiences',
             allow_missing_expiration = allow_missing_expiration',
             expect_issued_in_the_past = expect_issued_in_the_past',
             clock_skew = (if truthy_timedelta clock_skew'
                           then (case clock_skew' of Some cs \<Rightarrow> cs | None \<Rightarrow> 0)
                           else 0),
             fixed_now = fixed_now' \<rparr>)"

text \<open>\<^verbatim>\<open>new_validator\<close>, lines 119 to 142, passes its arguments on.\<close>

definition new_validator ::
  "string option \<Rightarrow> string option \<Rightarrow> string option \<Rightarrow> bool \<Rightarrow> bool \<Rightarrow> bool \<Rightarrow> bool \<Rightarrow> bool
    \<Rightarrow> timedelta option \<Rightarrow> datetime option \<Rightarrow> error + JwtValidator" where
  "new_validator = JwtValidator_init"

subsection \<open>The token: the claim reader RawJwt\<close>

text \<open>
  Modelled from the spec: the class \<^verbatim>\<open>RawJwt\<close> of \<^verbatim>\<open>tink.jwt._raw_jwt\<close> is not among the
  sources. The spec gives its contract: a read-only view with presence-checked accessors
  for expiration, not-before, issued-at (timestamps with timezone context), type header,
  issuer (strings) and audience (a set of strings); a claim that is present with an empty
  string is present. Each claim is an optional field, \<open>has_X\<close> is its presence.
\<close>

record RawJwt =
  expiration_claim :: "datetime option"
  not_before_claim :: "datetime option"
  issued_at_claim :: "datetime option"
  type_header_claim :: "string option"
  issuer_claim :: "string option"
  audiences_claim :: "string set option"

definition has_expiration :: "RawJwt \<Rightarrow> bool" where
  "has_expiration t = (expiration_claim t \<noteq> None)"

definition has_not_before :: "RawJwt \<Rightarrow> bool" where
  "has_not_before t = (not_before_claim t \<noteq> None)"

definition has_issued_at :: "RawJwt \<Rightarrow> bool" where
  "has_issued_at t = (issued_at_claim t \<noteq> None)"

definition has_type_header :: "RawJwt \<Rightarrow> bool" where
  "has_type_header t = (type_header_claim t \<noteq> None)"

definition has_issuer :: "RawJwt \<Rightarrow> bool" where
  "has_issuer t = (issuer_claim t \<noteq> None)"

definition has_audiences :: "RawJwt \<Rightarrow> bool" where
  "has_audiences t = (audiences_claim t \<noteq> None)"

subsection \<open>validate\<close>

text \<open>
  \<^verbatim>\<open>validate\<close> is a sequence of statements, each of which raises or falls through to the
  next. Each statement is one definition below, named after what it checks, with the
  lines of the source it embeds; \<open>and_then\<close> is the sequencing, where a raise skips what
  follows. A value accessor of the token (\<^verbatim>\<open>raw_jwt.expiration()\<close>) is only ever called
  behind its presence test, which is the \<open>case\<close> on the optional field. In a test on
  time the source first evaluates \<^verbatim>\<open>now - clock_skew\<close> or \<^verbatim>\<open>now + clock_skew\<close>, then the
  comparison; either can raise, and the exception leaves \<^verbatim>\<open>validate\<close>.
\<close>

definition and_then :: "error + unit \<Rightarrow> error + unit \<Rightarrow> error + unit" where
  "and_then r k = (case r of Inl e \<Rightarrow> Inl e | Inr _ \<Rightarrow> k)"

text \<open>
  Lines 157 to 160. The reading of the system clock,
  \<^verbatim>\<open>datetime.datetime.now(tz=datetime.timezone.utc)\<close>, is the argument \<open>utcnow\<close>: the
  wall-clock time in UTC that is read, which the source gets as the datetime
  \<open>utc utcnow\<close>.
\<close>

definition current_time :: "int \<Rightarrow> JwtValidator \<Rightarrow> datetime" where
  "current_time utcnow validator =
    (if has_fixed_now validator then
       (case fixed_now validator of Some d \<Rightarrow> d | None \<Rightarrow> utc utcnow)
     else utc utcnow)"

text \<open>Lines 161 and 162.\<close>

definition check_missing_expiration :: "JwtValidator \<Rightarrow> RawJwt \<Rightarrow> error + unit" where
  "check_missing_expiration validator raw_jwt =
    (if \<not> has_expiration raw_jwt \<and> \<not> allow_missing_expiration validator then
       Inl (JwtInvalidError MissingExpiration)
     else Inr ())"

text \<open>Lines 163 to 166.\<close>

definition check_expired :: "datetime \<Rightarrow> JwtValidator \<Rightarrow> RawJwt \<Rightarrow> error + unit" where
  "check_expired now validator raw_jwt =
    (case expiration_claim raw_jwt of
       Some e \<Rightarrow>
         (case datetime_sub now (clock_skew validator) of
            Inl err \<Rightarrow> Inl err
          | Inr d \<Rightarrow>
              (case datetime_le e d of
                 Inl err \<Rightarrow> Inl err
               | Inr b \<Rightarrow> if b then Inl (JwtInvalidError (Expired e)) else Inr ()))
     | None \<Rightarrow> Inr ())"

text \<open>Lines 167 to 170.\<close>

definition check_not_before :: "datetime \<Rightarrow> JwtValidator \<Rightarrow> RawJwt \<Rightarrow> error + unit" where
  "check_not_before now validator raw_jwt =
    (case not_before_claim raw_jwt of
       Some n \<Rightarrow>
         (case datetime_add now (clock_skew validator) of
            Inl err \<Rightarrow> Inl err
          | Inr d \<Rightarrow>
              (case datetime_gt n d of
                 Inl err \<Rightarrow> Inl err
               | Inr b \<Rightarrow> if b then Inl (JwtInvalidError (NotYetValid n)) else Inr ()))
     | None \<Rightarrow> Inr ())"

text \<open>Lines 171 to 177.\<close>

definition check_issued_at :: "datetime \<Rightarrow> JwtValidator \<Rightarrow> RawJwt \<Rightarrow> error + unit" where
  "check_issued_at now validator raw_jwt =
    (if expect_issued_in_the_past validator then
       (case issued_at_claim raw_jwt of
          None \<Rightarrow> Inl (JwtInvalidError MissingIat)
        | Some i \<Rightarrow>
            (case datetime_add now (clock_skew validator) of
               Inl err \<Rightarrow> Inl err
             | Inr d \<Rightarrow>
                 (case datetime_gt i d of
                    Inl err \<Rightarrow> Inl err
                  | Inr b \<Rightarrow> if b then Inl (JwtInvalidError (IatInFuture i)) else Inr ())))
     else Inr ())"

text \<open>Lines 178 to 190.\<close>

definition check_type_header :: "JwtValidator \<Rightarrow> RawJwt \<Rightarrow> error + unit" where
  "check_type_header validator raw_jwt =
    (case expected_type_header validator of
       Some x \<Rightarrow>
         (case type_header_claim raw_jwt of
            None \<Rightarrow> Inl (JwtInvalidError (MissingTypeHeader x))
          | Some y \<Rightarrow>
              if x \<noteq> y then Inl (JwtInvalidError (WrongTypeHeader x y)) else Inr ())
     | None \<Rightarrow>
         if has_type_header raw_jwt \<and> \<not> ignore_type_header validator then
           Inl (JwtInvalidError UnexpectedTypeHeader)
         else Inr ())"

text \<open>Lines 191 to 203.\<close>

definition check_issuer :: "JwtValidator \<Rightarrow> RawJwt \<Rightarrow> error + unit" where
  "check_issuer validator raw_jwt =
    (case expected_issuer validator of
       Some x \<Rightarrow>
         (case issuer_claim raw_jwt of
            None \<Rightarrow> Inl (JwtInvalidError (MissingIssuer x))
          | Some y \<Rightarrow>
              if x \<noteq> y then Inl (JwtInvalidError (WrongIssuer x y)) else Inr ())
     | None \<Rightarrow>
         if has_issuer raw_jwt \<and> \<not> ignore_issuer validator then
           Inl (JwtInvalidError UnexpectedIssuer)
         else Inr ())"

text \<open>Lines 204 to 213.\<close>

definition check_audience :: "JwtValidator \<Rightarrow> RawJwt \<Rightarrow> error + unit" where
  "check_audience validator raw_jwt =
    (case expected_audience validator of
       Some a \<Rightarrow>
         if \<not> has_audiences raw_jwt
            \<or> (case audiences_claim raw_jwt of Some A \<Rightarrow> a \<notin> A | None \<Rightarrow> True) then
           Inl (JwtInvalidError (MissingAudience a))
         else Inr ()
     | None \<Rightarrow>
         if has_audiences raw_jwt \<and> \<not> ignore_audiences validator then
           Inl (JwtInvalidError UnexpectedAudience)
         else Inr ())"

text \<open>\<^verbatim>\<open>validate\<close>, lines 145 to 213: returning \<^verbatim>\<open>None\<close> is \<open>Inr ()\<close>.\<close>

definition validate :: "int \<Rightarrow> JwtValidator \<Rightarrow> RawJwt \<Rightarrow> error + unit" where
  "validate utcnow validator raw_jwt =
    (let now = current_time utcnow validator in
     and_then (check_missing_expiration validator raw_jwt)
    (and_then (check_expired now validator raw_jwt)
    (and_then (check_not_before now validator raw_jwt)
    (and_then (check_issued_at now validator raw_jwt)
    (and_then (check_type_header validator raw_jwt)
    (and_then (check_issuer validator raw_jwt)
              (check_audience validator raw_jwt)))))))"

subsection \<open>validate on the two objects it is given\<close>

text \<open>
  In the source, \<^verbatim>\<open>validate\<close> holds references to two objects, the policy and the token,
  and reads them through their methods. So that a change of an object by \<^verbatim>\<open>validate\<close>
  can be stated at all, the statements of \<^verbatim>\<open>validate\<close> are written once more over a
  store that holds the two objects: a method call is a function from the store to its
  result and the store after the call, and the statements pass the store along.
\<close>

record objects =
  validator_object :: JwtValidator
  raw_jwt_object :: RawJwt

text \<open>
  A call of an accessor method of the policy. Every method of \<^verbatim>\<open>JwtValidator\<close> but the
  constructor is \<^verbatim>\<open>return self._x\<close> or \<^verbatim>\<open>return self._x is not None\<close> (lines 76 to 116):
  it returns what it reads of the object and assigns nothing.
\<close>

definition validator_method :: "(JwtValidator \<Rightarrow> 'a) \<Rightarrow> objects \<Rightarrow> 'a \<times> objects" where
  "validator_method reads s = (reads (validator_object s), s)"

text \<open>
  Modelled from the spec: the methods of \<^verbatim>\<open>RawJwt\<close>, which is not among the sources. The
  specification calls the token a read-only view with presence and value accessors; a
  call returns what it reads and leaves the token as it is.
\<close>

definition raw_jwt_method :: "(RawJwt \<Rightarrow> 'a) \<Rightarrow> objects \<Rightarrow> 'a \<times> objects" where
  "raw_jwt_method reads s = (reads (raw_jwt_object s), s)"

text \<open>
  Statements over the store: \<open>returns\<close> and \<open>raises\<close> end a statement, \<open>call\<close> is a
  method call, \<open>evaluates\<close> is an operator on values, which touches no object, and
  \<open>followed_by\<close> passes the result and the store on, unless an exception was raised.
\<close>

definition returns :: "'a \<Rightarrow> objects \<Rightarrow> (error + 'a) \<times> objects" where
  "returns x s = (Inr x, s)"

definition raises :: "error \<Rightarrow> objects \<Rightarrow> (error + 'a) \<times> objects" where
  "raises e s = (Inl e, s)"

definition call :: "(objects \<Rightarrow> 'a \<times> objects) \<Rightarrow> objects \<Rightarrow> (error + 'a) \<times> objects" where
  "call m s = (case m s of (x, s') \<Rightarrow> (Inr x, s'))"

definition evaluates :: "error + 'a \<Rightarrow> objects \<Rightarrow> (error + 'a) \<times> objects" where
  "evaluates r s = (r, s)"

definition followed_by ::
  "(objects \<Rightarrow> (error + 'a) \<times> objects) \<Rightarrow> ('a \<Rightarrow> objects \<Rightarrow> (error + 'b) \<times> objects)
    \<Rightarrow> objects \<Rightarrow> (error + 'b) \<times> objects" where
  "followed_by m f s =
    (case m s of (r, s') \<Rightarrow> (case r of Inl e \<Rightarrow> (Inl e, s') | Inr x \<Rightarrow> f x s'))"

text \<open>Lines 157 to 160.\<close>

definition current_time_on :: "int \<Rightarrow> objects \<Rightarrow> (error + datetime) \<times> objects" where
  "current_time_on utcnow =
    followed_by (call (validator_method has_fixed_now)) (\<lambda>has.
      if has then
        followed_by (call (validator_method fixed_now)) (\<lambda>now.
          case now of Some d \<Rightarrow> returns d | None \<Rightarrow> returns (utc utcnow))
      else returns (utc utcnow))"

text \<open>Lines 161 and 162: the second call is made only when the first returns false.\<close>

definition check_missing_expiration_on :: "objects \<Rightarrow> (error + unit) \<times> objects" where
  "check_missing_expiration_on =
    followed_by (call (raw_jwt_method has_expiration)) (\<lambda>has.
      if \<not> has then
        followed_by (call (validator_method allow_missing_expiration)) (\<lambda>allow.
          if \<not> allow then raises (JwtInvalidError MissingExpiration) else returns ())
      else returns ())"

text \<open>
  Lines 163 to 166. A value accessor is called behind its presence test, so the branch
  for an absent value is never reached: the presence was read from the same object.
\<close>

definition check_expired_on :: "datetime \<Rightarrow> objects \<Rightarrow> (error + unit) \<times> objects" where
  "check_expired_on now =
    followed_by (call (raw_jwt_method has_expiration)) (\<lambda>has.
      if has then
        followed_by (call (raw_jwt_method expiration_claim)) (\<lambda>expiration.
          case expiration of
            None \<Rightarrow> returns ()
          | Some e \<Rightarrow>
              followed_by (call (validator_method clock_skew)) (\<lambda>skew.
              followed_by (evaluates (datetime_sub now skew)) (\<lambda>d.
              followed_by (evaluates (datetime_le e d)) (\<lambda>b.
                if b then raises (JwtInvalidError (Expired e)) else returns ()))))
      else returns ())"

text \<open>Lines 167 to 170.\<close>

definition check_not_before_on :: "datetime \<Rightarrow> objects \<Rightarrow> (error + unit) \<times> objects" where
  "check_not_before_on now =
    followed_by (call (raw_jwt_method has_not_before)) (\<lambda>has.
      if has then
        followed_by (call (raw_jwt_method not_before_claim)) (\<lambda>not_before.
          case not_before of
            None \<Rightarrow> returns ()
          | Some n \<Rightarrow>
              followed_by (call (validator_method clock_skew)) (\<lambda>skew.
              followed_by (evaluates (datetime_add now skew)) (\<lambda>d.
              followed_by (evaluates (datetime_gt n d)) (\<lambda>b.
                if b then raises (JwtInvalidError (NotYetValid n)) else returns ()))))
      else returns ())"

text \<open>Lines 171 to 177.\<close>

definition check_issued_at_on :: "datetime \<Rightarrow> objects \<Rightarrow> (error + unit) \<times> objects" where
  "check_issued_at_on now =
    followed_by (call (validator_method expect_issued_in_the_past)) (\<lambda>expect.
      if expect then
        followed_by (call (raw_jwt_method has_issued_at)) (\<lambda>has.
          if \<not> has then raises (JwtInvalidError MissingIat)
          else
            followed_by (call (raw_jwt_method issued_at_claim)) (\<lambda>issued_at.
              case issued_at of
                None \<Rightarrow> returns ()
              | Some i \<Rightarrow>
                  followed_by (call (validator_method clock_skew)) (\<lambda>skew.
                  followed_by (evaluates (datetime_add now skew)) (\<lambda>d.
                  followed_by (evaluates (datetime_gt i d)) (\<lambda>b.
                    if b then raises (JwtInvalidError (IatInFuture i)) else returns ())))))
      else returns ())"

text \<open>Lines 178 to 190.\<close>

definition check_type_header_on :: "objects \<Rightarrow> (error + unit) \<times> objects" where
  "check_type_header_on =
    followed_by (call (validator_method has_expected_type_header)) (\<lambda>expects.
      if expects then
        followed_by (call (raw_jwt_method has_type_header)) (\<lambda>has.
        followed_by (call (validator_method expected_type_header)) (\<lambda>expected.
          case expected of
            None \<Rightarrow> returns ()
          | Some x \<Rightarrow>
              if \<not> has then raises (JwtInvalidError (MissingTypeHeader x))
              else
                followed_by (call (raw_jwt_method type_header_claim)) (\<lambda>type_header.
                  case type_header of
                    None \<Rightarrow> returns ()
                  | Some y \<Rightarrow>
                      if x \<noteq> y then raises (JwtInvalidError (WrongTypeHeader x y))
                      else returns ())))
      else
        followed_by (call (raw_jwt_method has_type_header)) (\<lambda>has.
          if has then
            followed_by (call (validator_method ignore_type_header)) (\<lambda>ignore.
              if \<not> ignore then raises (JwtInvalidError UnexpectedTypeHeader)
              else returns ())
          else returns ()))"

text \<open>Lines 191 to 203.\<close>

definition check_issuer_on :: "objects \<Rightarrow> (error + unit) \<times> objects" where
  "check_issuer_on =
    followed_by (call (validator_method has_expected_issuer)) (\<lambda>expects.
      if expects then
        followed_by (call (raw_jwt_method has_issuer)) (\<lambda>has.
        followed_by (call (validator_method expected_issuer)) (\<lambda>expected.
          case expected of
            None \<Rightarrow> returns ()
          | Some x \<Rightarrow>
              if \<not> has then raises (JwtInvalidError (MissingIssuer x))
              else
                followed_by (call (raw_jwt_method issuer_claim)) (\<lambda>issuer.
                  case issuer of
                    None \<Rightarrow> returns ()
                  | Some y \<Rightarrow>
                      if x \<noteq> y then raises (JwtInvalidError (WrongIssuer x y))
                      else returns ())))
      else
        followed_by (call (raw_jwt_method has_issuer)) (\<lambda>has.
          if has then
            followed_by (call (validator_method ignore_issuer)) (\<lambda>ignore.
              if \<not> ignore then raises (JwtInvalidError UnexpectedIssuer)
              else returns ())
          else returns ()))"

text \<open>Lines 204 to 213.\<close>

definition check_audience_on :: "objects \<Rightarrow> (error + unit) \<times> objects" where
  "check_audience_on =
    followed_by (call (validator_method has_expected_audience)) (\<lambda>expects.
      if expects then
        followed_by (call (raw_jwt_method has_audiences)) (\<lambda>has.
        followed_by (call (validator_method expected_audience)) (\<lambda>expected.
          case expected of
            None \<Rightarrow> returns ()
          | Some a \<Rightarrow>
              if \<not> has then raises (JwtInvalidError (MissingAudience a))
              else
                followed_by (call (raw_jwt_method audiences_claim)) (\<lambda>audiences.
                  case audiences of
                    None \<Rightarrow> returns ()
                  | Some A \<Rightarrow>
                      if a \<notin> A then raises (JwtInvalidError (MissingAudience a))
                      else returns ())))
      else
        followed_by (call (raw_jwt_method has_audiences)) (\<lambda>has.
          if has then
            followed_by (call (validator_method ignore_audiences)) (\<lambda>ignore.
              if \<not> ignore then raises (JwtInvalidError UnexpectedAudience)
              else returns ())
          else returns ()))"

text \<open>\<^verbatim>\<open>validate\<close>, lines 145 to 213, on the store.\<close>

definition validate_on :: "int \<Rightarrow> objects \<Rightarrow> (error + unit) \<times> objects" where
  "validate_on utcnow =
    followed_by (current_time_on utcnow) (\<lambda>now.
    followed_by check_missing_expiration_on (\<lambda>_.
    followed_by (check_expired_on now) (\<lambda>_.
    followed_by (check_not_before_on now) (\<lambda>_.
    followed_by (check_issued_at_on now) (\<lambda>_.
    followed_by check_type_header_on (\<lambda>_.
    followed_by check_issuer_on (\<lambda>_.
    check_audience_on)))))))"

subsection \<open>The order of the checks, in the words of the specification\<close>













subsection \<open>Policies and tokens used as examples\<close>

text \<open>
  \<open>default_policy\<close> is the policy that \<^verbatim>\<open>new_validator()\<close> builds from the defaults of its
  signature; \<open>no_claims\<close> is the token without any claim. The examples below are record
  updates of the two.
\<close>

definition default_policy :: JwtValidator where
  "default_policy =
    \<lparr> expected_type_header = None, expected_issuer = None, expected_audience = None,
      ignore_type_header = False, ignore_issuer = False, ignore_audiences = False,
      allow_missing_expiration = False, expect_issued_in_the_past = False,
      clock_skew = 0, fixed_now = None \<rparr>"

definition no_claims :: RawJwt where
  "no_claims =
    \<lparr> expiration_claim = None, not_before_claim = None, issued_at_claim = None,
      type_header_claim = None, issuer_claim = None, audiences_claim = None \<rparr>"


text \<open>A policy with a fixed clock that expects tokens issued in the past.\<close>

definition past_policy :: JwtValidator where
  "past_policy = default_policy\<lparr>expect_issued_in_the_past := True, fixed_now := Some (utc 1000)\<rparr>"

definition early_token :: RawJwt where
  "early_token =
     no_claims\<lparr>expiration_claim := Some (utc 2000), not_before_claim := Some (utc 1001)\<rparr>"

definition postdated_token :: RawJwt where
  "postdated_token =
     no_claims\<lparr>expiration_claim := Some (utc 2000), not_before_claim := Some (utc 1000),
       issued_at_claim := Some (utc 1001)\<rparr>"

definition undated_token :: RawJwt where
  "undated_token = no_claims\<lparr>expiration_claim := Some (utc 2000)\<rparr>"

text \<open>A policy that expects the audience svc-a, and two tokens for it.\<close>

definition svc_a_policy :: JwtValidator where
  "svc_a_policy = default_policy\<lparr>expected_audience := Some ''svc-a''\<rparr>"

definition svc_a_b_token :: RawJwt where
  "svc_a_b_token =
     no_claims\<lparr>expiration_claim := Some (utc 2000),
       audiences_claim := Some {''svc-a'', ''svc-b''}\<rparr>"

definition svc_b_token :: RawJwt where
  "svc_b_token =
     no_claims\<lparr>expiration_claim := Some (utc 2000), audiences_claim := Some {''svc-b''}\<rparr>"

text \<open>A token that carries the issuer acme and an expiration.\<close>

definition acme_token :: RawJwt where
  "acme_token = no_claims\<lparr>expiration_claim := Some (utc 2000), issuer_claim := Some ''acme''\<rparr>"

text \<open>A naive datetime: one without \<^verbatim>\<open>tzinfo\<close>.\<close>

definition naive :: "int \<Rightarrow> datetime" where
  "naive w = \<lparr>wall = w, fold = False, tzinfo = None\<rparr>"

text \<open>A token whose issuer is the empty string.\<close>

definition empty_issuer_token :: RawJwt where
  "empty_issuer_token =
     no_claims\<lparr>expiration_claim := Some (utc 2000), issuer_claim := Some ''''\<rparr>"

text \<open>
  A zone whose offset changes: US Eastern time at the end of daylight saving time on
  7 November 2021, day 738101 of the calendar. Before 01:00 of that day the offset is
  4 hours behind UTC, from 02:00 on it is 5 hours behind, and the wall-clock times from
  01:00 to 02:00 occur twice: first (\<^verbatim>\<open>fold\<close> 0) 4 hours behind, then (\<^verbatim>\<open>fold\<close> 1) 5 hours
  behind. \<open>nov7\<close> is a wall-clock time of that day, given in hours and minutes.
\<close>

definition nov7 :: "int \<Rightarrow> int \<Rightarrow> int" where
  "nov7 h m = days 738100 + hours h + minutes m"





text \<open>
  A \<^verbatim>\<open>tzinfo\<close> object whose \<^verbatim>\<open>utcoffset\<close> returns \<^verbatim>\<open>None\<close>, a datetime that has it, and
  the policy with that datetime as \<open>fixed_now\<close>.
\<close>

definition no_offset_zone :: tzinfo where
  "no_offset_zone = Tzinfo 2 (\<lambda>w f. None)"

definition no_offset_now :: datetime where
  "no_offset_now = \<lparr>wall = nov7 1 5, fold = False, tzinfo = Some no_offset_zone\<rparr>"

definition no_offset_policy :: JwtValidator where
  "no_offset_policy = default_policy\<lparr>fixed_now := Some no_offset_now\<rparr>"






section \<open>Properties\<close>

subsection \<open>Sequencing\<close>

lemma and_then_eq_Inl:
  "and_then r k = Inl e \<longleftrightarrow> r = Inl e \<or> (r = Inr () \<and> k = Inl e)"
  by (cases r) (auto simp: and_then_def)

lemma and_then_eq_Inr:
  "and_then r k = Inr () \<longleftrightarrow> r = Inr () \<and> k = Inr ()"
  by (cases r) (auto simp: and_then_def)

lemma validate_eq_Inl:
  "validate u v t = Inl e \<longleftrightarrow>
     check_missing_expiration v t = Inl e
   \<or> check_missing_expiration v t = Inr () \<and>
     (check_expired (current_time u v) v t = Inl e
   \<or> check_expired (current_time u v) v t = Inr () \<and>
     (check_not_before (current_time u v) v t = Inl e
   \<or> check_not_before (current_time u v) v t = Inr () \<and>
     (check_issued_at (current_time u v) v t = Inl e
   \<or> check_issued_at (current_time u v) v t = Inr () \<and>
     (check_type_header v t = Inl e
   \<or> check_type_header v t = Inr () \<and>
     (check_issuer v t = Inl e
   \<or> check_issuer v t = Inr () \<and> check_audience v t = Inl e)))))"
  unfolding validate_def Let_def by (simp only: and_then_eq_Inl)

lemma validate_eq_Inr:
  "validate u v t = Inr () \<longleftrightarrow>
     check_missing_expiration v t = Inr ()
   \<and> check_expired (current_time u v) v t = Inr ()
   \<and> check_not_before (current_time u v) v t = Inr ()
   \<and> check_issued_at (current_time u v) v t = Inr ()
   \<and> check_type_header v t = Inr ()
   \<and> check_issuer v t = Inr ()
   \<and> check_audience v t = Inr ()"
  unfolding validate_def Let_def by (simp only: and_then_eq_Inr)

subsection \<open>The operators of datetime\<close>

lemma datetime_add_Inl: "datetime_add d td = Inl err \<Longrightarrow> err = OverflowError"
  by (simp add: datetime_add_def Let_def split: if_splits)

lemma datetime_sub_Inl: "datetime_sub d td = Inl err \<Longrightarrow> err = OverflowError"
  by (simp add: datetime_sub_def datetime_add_Inl)

lemma comparison_keys_Inl: "comparison_keys a b = Inl err \<Longrightarrow> err = TypeError"
  by (simp add: comparison_keys_def split: if_splits option.splits)

lemma datetime_le_Inl: "datetime_le a b = Inl err \<Longrightarrow> err = TypeError"
  by (auto simp: datetime_le_def dest: comparison_keys_Inl split: sum.splits)

lemma datetime_gt_Inl: "datetime_gt a b = Inl err \<Longrightarrow> err = TypeError"
  by (auto simp: datetime_gt_def dest: comparison_keys_Inl split: sum.splits)

lemma datetime_add_Inr:
  "datetime_add d td = Inr d' \<longleftrightarrow>
     0 \<le> wall d + td \<and> wall d + td < MAX_WALL
     \<and> d' = d\<lparr>wall := wall d + td, fold := False\<rparr>"
  by (auto simp: datetime_add_def Let_def)

lemma datetime_sub_Inr:
  "datetime_sub d td = Inr d' \<longleftrightarrow>
     0 \<le> wall d - td \<and> wall d - td < MAX_WALL
     \<and> d' = d\<lparr>wall := wall d - td, fold := False\<rparr>"
  by (auto simp: datetime_sub_def datetime_add_def Let_def)




text \<open>In UTC the operators are those of the wall-clock times.\<close>

lemma utc_simps:
  "wall (utc w) = w" "fold (utc w) = False" "tzinfo (utc w) = Some timezone_utc"
  "utcoffset (utc w) = Some 0" "instant (utc w) = Some w" "same_tzinfo (utc a) (utc b)"
  by (simp_all add: utc_def utcoffset_def instant_def same_tzinfo_def timezone_utc_def)


lemma datetime_add_utc:
  "0 \<le> w + td \<Longrightarrow> w + td < MAX_WALL \<Longrightarrow> datetime_add (utc w) td = Inr (utc (w + td))"
  by (simp add: datetime_add_def utc_def)

lemma datetime_sub_utc:
  "0 \<le> w - td \<Longrightarrow> w - td < MAX_WALL \<Longrightarrow> datetime_sub (utc w) td = Inr (utc (w - td))"
  by (simp add: datetime_sub_def datetime_add_def utc_def)

lemma datetime_le_utc: "datetime_le (utc a) (utc b) = Inr (a \<le> b)"
  by (simp add: datetime_le_def comparison_keys_def utc_simps)

lemma datetime_gt_utc: "datetime_gt (utc a) (utc b) = Inr (a > b)"
  by (simp add: datetime_gt_def comparison_keys_def utc_simps)

lemma MAX_WALL_value: "MAX_WALL = 315537897600000000"
  by (simp add: MAX_WALL_def days_def)

subsection \<open>What each check raises\<close>

lemma check_missing_expiration_iff:
  "check_missing_expiration v t = Inl e \<longleftrightarrow>
     e = JwtInvalidError MissingExpiration \<and> expiration_claim t = None
     \<and> \<not> allow_missing_expiration v"
  by (auto simp: check_missing_expiration_def has_expiration_def)

lemma check_expired_iff:
  "check_expired now v t = Inl err \<longleftrightarrow>
     (\<exists>e. expiration_claim t = Some e \<and>
        (datetime_sub now (clock_skew v) = Inl err
         \<or> (\<exists>d. datetime_sub now (clock_skew v) = Inr d \<and>
               (datetime_le e d = Inl err
                \<or> datetime_le e d = Inr True \<and> err = JwtInvalidError (Expired e)))))"
  by (auto simp: check_expired_def split: option.splits sum.splits)

lemma check_not_before_iff:
  "check_not_before now v t = Inl err \<longleftrightarrow>
     (\<exists>n. not_before_claim t = Some n \<and>
        (datetime_add now (clock_skew v) = Inl err
         \<or> (\<exists>d. datetime_add now (clock_skew v) = Inr d \<and>
               (datetime_gt n d = Inl err
                \<or> datetime_gt n d = Inr True \<and> err = JwtInvalidError (NotYetValid n)))))"
  by (auto simp: check_not_before_def split: option.splits sum.splits)

lemma check_issued_at_iff:
  "check_issued_at now v t = Inl err \<longleftrightarrow>
     expect_issued_in_the_past v \<and>
     (issued_at_claim t = None \<and> err = JwtInvalidError MissingIat
      \<or> (\<exists>i. issued_at_claim t = Some i \<and>
            (datetime_add now (clock_skew v) = Inl err
             \<or> (\<exists>d. datetime_add now (clock_skew v) = Inr d \<and>
                   (datetime_gt i d = Inl err
                    \<or> datetime_gt i d = Inr True
                      \<and> err = JwtInvalidError (IatInFuture i))))))"
  by (auto simp: check_issued_at_def split: option.splits sum.splits)

text \<open>The errors that a check on time can raise.\<close>

lemma check_expired_raises:
  "check_expired now v t = Inl err \<Longrightarrow>
     err = OverflowError \<or> err = TypeError
     \<or> (\<exists>e. expiration_claim t = Some e \<and> err = JwtInvalidError (Expired e))"
  by (auto simp: check_expired_iff dest: datetime_sub_Inl datetime_le_Inl)

lemma check_not_before_raises:
  "check_not_before now v t = Inl err \<Longrightarrow>
     err = OverflowError \<or> err = TypeError
     \<or> (\<exists>n. not_before_claim t = Some n \<and> err = JwtInvalidError (NotYetValid n))"
  by (auto simp: check_not_before_iff dest: datetime_add_Inl datetime_gt_Inl)

lemma check_issued_at_raises:
  "check_issued_at now v t = Inl err \<Longrightarrow>
     err = OverflowError \<or> err = TypeError \<or> err = JwtInvalidError MissingIat
     \<or> (\<exists>i. issued_at_claim t = Some i \<and> err = JwtInvalidError (IatInFuture i))"
  by (auto simp: check_issued_at_iff dest: datetime_add_Inl datetime_gt_Inl)

lemma check_type_header_iff:
  "check_type_header v t = Inl e \<longleftrightarrow>
     (\<exists>x. expected_type_header v = Some x \<and> type_header_claim t = None
          \<and> e = JwtInvalidError (MissingTypeHeader x))
     \<or> (\<exists>x y. expected_type_header v = Some x \<and> type_header_claim t = Some y \<and> x \<noteq> y
          \<and> e = JwtInvalidError (WrongTypeHeader x y))
     \<or> (expected_type_header v = None \<and> type_header_claim t \<noteq> None
          \<and> \<not> ignore_type_header v \<and> e = JwtInvalidError UnexpectedTypeHeader)"
  by (auto simp: check_type_header_def has_type_header_def split: option.splits)

lemma check_issuer_iff:
  "check_issuer v t = Inl e \<longleftrightarrow>
     (\<exists>x. expected_issuer v = Some x \<and> issuer_claim t = None
          \<and> e = JwtInvalidError (MissingIssuer x))
     \<or> (\<exists>x y. expected_issuer v = Some x \<and> issuer_claim t = Some y \<and> x \<noteq> y
          \<and> e = JwtInvalidError (WrongIssuer x y))
     \<or> (expected_issuer v = None \<and> issuer_claim t \<noteq> None
          \<and> \<not> ignore_issuer v \<and> e = JwtInvalidError UnexpectedIssuer)"
  by (auto simp: check_issuer_def has_issuer_def split: option.splits)

lemma check_audience_iff:
  "check_audience v t = Inl e \<longleftrightarrow>
     (\<exists>a. expected_audience v = Some a \<and> e = JwtInvalidError (MissingAudience a)
          \<and> (audiences_claim t = None \<or> (\<exists>A. audiences_claim t = Some A \<and> a \<notin> A)))
     \<or> (expected_audience v = None \<and> audiences_claim t \<noteq> None
          \<and> \<not> ignore_audiences v \<and> e = JwtInvalidError UnexpectedAudience)"
  by (auto simp: check_audience_def has_audiences_def split: option.splits)

lemmas check_iffs =
  check_missing_expiration_iff check_expired_iff check_not_before_iff check_issued_at_iff
  check_type_header_iff check_issuer_iff check_audience_iff

subsection \<open>When each check passes\<close>

lemma check_missing_expiration_ok:
  "check_missing_expiration v t = Inr () \<longleftrightarrow>
     expiration_claim t \<noteq> None \<or> allow_missing_expiration v"
  by (auto simp: check_missing_expiration_def has_expiration_def)

lemma check_expired_ok:
  "check_expired now v t = Inr () \<longleftrightarrow>
     expiration_claim t = None
     \<or> (\<exists>e d. expiration_claim t = Some e \<and> datetime_sub now (clock_skew v) = Inr d
           \<and> datetime_le e d = Inr False)"
  by (auto simp: check_expired_def split: option.splits sum.splits)

lemma check_not_before_ok:
  "check_not_before now v t = Inr () \<longleftrightarrow>
     not_before_claim t = None
     \<or> (\<exists>n d. not_before_claim t = Some n \<and> datetime_add now (clock_skew v) = Inr d
           \<and> datetime_gt n d = Inr False)"
  by (auto simp: check_not_before_def split: option.splits sum.splits)

lemma check_issued_at_ok:
  "check_issued_at now v t = Inr () \<longleftrightarrow>
     \<not> expect_issued_in_the_past v
     \<or> (\<exists>i d. issued_at_claim t = Some i \<and> datetime_add now (clock_skew v) = Inr d
           \<and> datetime_gt i d = Inr False)"
  by (auto simp: check_issued_at_def split: option.splits sum.splits)

lemma check_type_header_ok:
  "check_type_header v t = Inr () \<longleftrightarrow>
     (\<exists>x. expected_type_header v = Some x \<and> type_header_claim t = Some x)
     \<or> (expected_type_header v = None
         \<and> (type_header_claim t = None \<or> ignore_type_header v))"
  by (auto simp: check_type_header_def has_type_header_def split: option.splits)

lemma check_issuer_ok:
  "check_issuer v t = Inr () \<longleftrightarrow>
     (\<exists>x. expected_issuer v = Some x \<and> issuer_claim t = Some x)
     \<or> (expected_issuer v = None \<and> (issuer_claim t = None \<or> ignore_issuer v))"
  by (auto simp: check_issuer_def has_issuer_def split: option.splits)

lemma check_audience_ok:
  "check_audience v t = Inr () \<longleftrightarrow>
     (\<exists>a A. expected_audience v = Some a \<and> audiences_claim t = Some A \<and> a \<in> A)
     \<or> (expected_audience v = None \<and> (audiences_claim t = None \<or> ignore_audiences v))"
  by (auto simp: check_audience_def has_audiences_def split: option.splits)

text \<open>The checks on time when now and the timestamp of the token are in UTC.\<close>

lemma check_expired_utc:
  assumes "expiration_claim t = Some (utc e)"
    and "0 \<le> w - clock_skew v" and "w - clock_skew v < MAX_WALL"
  shows "check_expired (utc w) v t =
    (if e \<le> w - clock_skew v then Inl (JwtInvalidError (Expired (utc e))) else Inr ())"
  using assms by (simp add: check_expired_def datetime_sub_utc datetime_le_utc)

lemma check_not_before_utc:
  assumes "not_before_claim t = Some (utc n)"
    and "0 \<le> w + clock_skew v" and "w + clock_skew v < MAX_WALL"
  shows "check_not_before (utc w) v t =
    (if n > w + clock_skew v then Inl (JwtInvalidError (NotYetValid (utc n))) else Inr ())"
  using assms by (simp add: check_not_before_def datetime_add_utc datetime_gt_utc)

lemma check_issued_at_utc:
  assumes "issued_at_claim t = Some (utc i)" and "expect_issued_in_the_past v"
    and "0 \<le> w + clock_skew v" and "w + clock_skew v < MAX_WALL"
  shows "check_issued_at (utc w) v t =
    (if i > w + clock_skew v then Inl (JwtInvalidError (IatInFuture (utc i))) else Inr ())"
  using assms by (simp add: check_issued_at_def datetime_add_utc datetime_gt_utc)

lemma check_absent_claim:
  "expiration_claim t = None \<Longrightarrow> check_expired now v t = Inr ()"
  "not_before_claim t = None \<Longrightarrow> check_not_before now v t = Inr ()"
  "\<not> expect_issued_in_the_past v \<Longrightarrow> check_issued_at now v t = Inr ()"
  by (simp_all add: check_expired_def check_not_before_def check_issued_at_def)

subsection \<open>Example values\<close>

lemma default_policy_simps:
  "expected_type_header default_policy = None"
  "expected_issuer default_policy = None"
  "expected_audience default_policy = None"
  "ignore_type_header default_policy = False"
  "ignore_issuer default_policy = False"
  "ignore_audiences default_policy = False"
  "allow_missing_expiration default_policy = False"
  "expect_issued_in_the_past default_policy = False"
  "clock_skew default_policy = 0"
  "fixed_now default_policy = None"
  by (simp_all add: default_policy_def)



lemma current_time_clock: "fixed_now v = None \<Longrightarrow> current_time u v = utc u"
  by (simp add: current_time_def has_fixed_now_def)




subsection \<open>Expiration\<close>


lemma validate_Expired:
  "validate u v t = Inl (JwtInvalidError (Expired r))
     \<longleftrightarrow> check_missing_expiration v t = Inr ()
         \<and> check_expired (current_time u v) v t = Inl (JwtInvalidError (Expired r))"
  by (auto simp: validate_eq_Inl check_missing_expiration_iff check_type_header_iff
      check_issuer_iff check_audience_iff
      dest: check_not_before_raises check_issued_at_raises)





subsection \<open>The first rule of a list that is not passed\<close>






subsection \<open>Each check of the source is the rule of the specification\<close>











subsection \<open>The order of the checks\<close>







subsection \<open>Not-before and issued-at\<close>


lemma validate_NotYetValid:
  "validate u v t = Inl (JwtInvalidError (NotYetValid n)) \<longleftrightarrow>
     check_missing_expiration v t = Inr () \<and> check_expired (current_time u v) v t = Inr ()
     \<and> check_not_before (current_time u v) v t = Inl (JwtInvalidError (NotYetValid n))"
  by (auto simp: validate_eq_Inl check_missing_expiration_iff check_type_header_iff
      check_issuer_iff check_audience_iff
      dest: check_expired_raises check_issued_at_raises)






lemma past_policy_simps:
  "expect_issued_in_the_past past_policy"
  "allow_missing_expiration past_policy = False"
  "clock_skew past_policy = 0"
  "current_time u past_policy = utc 1000"
  by (simp_all add: past_policy_def default_policy_def current_time_def has_fixed_now_def)

lemma past_policy_checks:
  "datetime_add (utc 1000) 0 = Inr (utc 1000)"
  "check_missing_expiration past_policy early_token = Inr ()"
  "check_expired (utc 1000) past_policy early_token = Inr ()"
  "check_missing_expiration past_policy postdated_token = Inr ()"
  "check_expired (utc 1000) past_policy postdated_token = Inr ()"
  "check_not_before (utc 1000) past_policy postdated_token = Inr ()"
  "check_missing_expiration past_policy undated_token = Inr ()"
  "check_expired (utc 1000) past_policy undated_token = Inr ()"
  "check_not_before (utc 1000) past_policy undated_token = Inr ()"
  using datetime_add_utc [of 1000 0]
  by (simp_all add: past_policy_simps check_missing_expiration_ok check_expired_utc
      check_not_before_utc check_absent_claim early_token_def postdated_token_def
      undated_token_def no_claims_def MAX_WALL_value)

lemma past_tokens_simps:
  "not_before_claim early_token = Some (utc 1001)"
  "issued_at_claim postdated_token = Some (utc 1001)"
  "not_before_claim postdated_token = Some (utc 1000)"
  "not_before_claim undated_token = None"
  "issued_at_claim undated_token = None"
  by (simp_all add: early_token_def postdated_token_def undated_token_def no_claims_def)


subsection \<open>Audience\<close>

lemma validate_reaches_audience:
  assumes "check_missing_expiration v t = Inr ()"
    and "check_expired (current_time u v) v t = Inr ()"
    and "check_not_before (current_time u v) v t = Inr ()"
    and "check_issued_at (current_time u v) v t = Inr ()"
    and "check_type_header v t = Inr ()"
    and "check_issuer v t = Inr ()"
  shows "validate u v t = check_audience v t"
  using assms unfolding validate_def Let_def by (simp add: and_then_def)

text \<open>
  Claim C4. When the policy expects an audience \<open>a\<close>, the audience check passes exactly
  when the token has an audience claim and \<open>a\<close> is a member of it, and fails with the
  missing-audience reason otherwise: a token with the audiences svc-a and svc-b passes
  for \<open>a\<close> = svc-a, a token with the audience svc-b alone fails. When the policy expects
  no audience, the check fails exactly when the token has an audience claim and
  \<open>ignore_audiences\<close> is false. The audience check is the last one, so it is the outcome
  of \<open>validate\<close> whenever the checks before it have passed.
\<close>

theorem validate_audience:
  "(expected_audience v = Some a \<longrightarrow>
      (check_audience v t = Inr ()
         \<longleftrightarrow> has_audiences t \<and> (\<exists>A. audiences_claim t = Some A \<and> a \<in> A))
      \<and> (check_audience v t = Inr ()
          \<or> check_audience v t = Inl (JwtInvalidError (MissingAudience a))))
   \<and> (expected_audience v = Some ''svc-a''
        \<and> audiences_claim t = Some {''svc-a'', ''svc-b''} \<longrightarrow>
        check_audience v t = Inr ())
   \<and> (expected_audience v = Some ''svc-a'' \<and> audiences_claim t = Some {''svc-b''} \<longrightarrow>
        check_audience v t = Inl (JwtInvalidError (MissingAudience ''svc-a'')))
   \<and> (expected_audience v = None \<longrightarrow>
        (check_audience v t = Inl (JwtInvalidError UnexpectedAudience)
           \<longleftrightarrow> has_audiences t \<and> \<not> ignore_audiences v)
        \<and> (check_audience v t = Inr ()
            \<or> check_audience v t = Inl (JwtInvalidError UnexpectedAudience)))
   \<and> (check_missing_expiration v t = Inr ()
        \<and> check_expired (current_time u v) v t = Inr ()
        \<and> check_not_before (current_time u v) v t = Inr ()
        \<and> check_issued_at (current_time u v) v t = Inr ()
        \<and> check_type_header v t = Inr ()
        \<and> check_issuer v t = Inr () \<longrightarrow>
        validate u v t = check_audience v t)"
proof -
  have expected: "expected_audience v = Some a \<longrightarrow>
      (check_audience v t = Inr ()
         \<longleftrightarrow> has_audiences t \<and> (\<exists>A. audiences_claim t = Some A \<and> a \<in> A))
      \<and> (check_audience v t = Inr ()
          \<or> check_audience v t = Inl (JwtInvalidError (MissingAudience a)))"
    by (auto simp: check_audience_def has_audiences_def split: option.splits)
  have both: "expected_audience v = Some ''svc-a''
        \<and> audiences_claim t = Some {''svc-a'', ''svc-b''} \<longrightarrow>
        check_audience v t = Inr ()"
    by (simp add: check_audience_def has_audiences_def)
  have other: "expected_audience v = Some ''svc-a'' \<and> audiences_claim t = Some {''svc-b''} \<longrightarrow>
        check_audience v t = Inl (JwtInvalidError (MissingAudience ''svc-a''))"
    by (simp add: check_audience_def has_audiences_def)
  have unexpected: "expected_audience v = None \<longrightarrow>
        (check_audience v t = Inl (JwtInvalidError UnexpectedAudience)
           \<longleftrightarrow> has_audiences t \<and> \<not> ignore_audiences v)
        \<and> (check_audience v t = Inr ()
            \<or> check_audience v t = Inl (JwtInvalidError UnexpectedAudience))"
    by (simp add: check_audience_def has_audiences_def)
  have last: "check_missing_expiration v t = Inr ()
        \<and> check_expired (current_time u v) v t = Inr ()
        \<and> check_not_before (current_time u v) v t = Inr ()
        \<and> check_issued_at (current_time u v) v t = Inr ()
        \<and> check_type_header v t = Inr ()
        \<and> check_issuer v t = Inr () \<longrightarrow>
        validate u v t = check_audience v t"
    using validate_reaches_audience by blast
  from expected both other unexpected last show ?thesis by blast
qed

lemma svc_a_policy_simps:
  "expected_type_header svc_a_policy = None"
  "expected_issuer svc_a_policy = None"
  "expected_audience svc_a_policy = Some ''svc-a''"
  "allow_missing_expiration svc_a_policy = False"
  "expect_issued_in_the_past svc_a_policy = False"
  "clock_skew svc_a_policy = 0"
  "current_time u svc_a_policy = utc u"
  by (simp_all add: svc_a_policy_def default_policy_def current_time_def has_fixed_now_def)

theorem validate_audience_witness:
  "expected_audience svc_a_policy = Some ''svc-a''
   \<and> audiences_claim svc_a_b_token = Some {''svc-a'', ''svc-b''}
   \<and> check_missing_expiration svc_a_policy svc_a_b_token = Inr ()
   \<and> check_expired (current_time 1000 svc_a_policy) svc_a_policy svc_a_b_token = Inr ()
   \<and> check_not_before (current_time 1000 svc_a_policy) svc_a_policy svc_a_b_token = Inr ()
   \<and> check_issued_at (current_time 1000 svc_a_policy) svc_a_policy svc_a_b_token = Inr ()
   \<and> check_type_header svc_a_policy svc_a_b_token = Inr ()
   \<and> check_issuer svc_a_policy svc_a_b_token = Inr ()
   \<and> validate 1000 svc_a_policy svc_a_b_token = Inr ()
   \<and> audiences_claim svc_b_token = Some {''svc-b''}
   \<and> check_missing_expiration svc_a_policy svc_b_token = Inr ()
   \<and> check_expired (current_time 1000 svc_a_policy) svc_a_policy svc_b_token = Inr ()
   \<and> check_not_before (current_time 1000 svc_a_policy) svc_a_policy svc_b_token = Inr ()
   \<and> check_issued_at (current_time 1000 svc_a_policy) svc_a_policy svc_b_token = Inr ()
   \<and> check_type_header svc_a_policy svc_b_token = Inr ()
   \<and> check_issuer svc_a_policy svc_b_token = Inr ()
   \<and> validate 1000 svc_a_policy svc_b_token
       = Inl (JwtInvalidError (MissingAudience ''svc-a''))
   \<and> expected_audience default_policy = None
   \<and> has_audiences svc_b_token \<and> \<not> ignore_audiences default_policy
   \<and> check_audience default_policy svc_b_token = Inl (JwtInvalidError UnexpectedAudience)"
  using
    validate_audience [where u = 1000 and v = svc_a_policy and t = svc_a_b_token]
    validate_audience [where u = 1000 and v = svc_a_policy and t = svc_b_token]
    validate_audience [where v = default_policy and t = svc_b_token]
  by (simp add: svc_a_policy_simps default_policy_simps check_missing_expiration_ok
      check_expired_utc check_absent_claim check_type_header_ok check_issuer_ok
      has_audiences_def svc_a_b_token_def svc_b_token_def no_claims_def MAX_WALL_value)

subsection \<open>Type header and issuer\<close>

lemma validate_reaches_type_header:
  assumes "check_missing_expiration v t = Inr ()"
    and "check_expired (current_time u v) v t = Inr ()"
    and "check_not_before (current_time u v) v t = Inr ()"
    and "check_issued_at (current_time u v) v t = Inr ()"
    and "check_type_header v t = Inl e"
  shows "validate u v t = Inl e"
  using assms by (simp add: validate_eq_Inl)

lemma validate_reaches_issuer:
  assumes "check_missing_expiration v t = Inr ()"
    and "check_expired (current_time u v) v t = Inr ()"
    and "check_not_before (current_time u v) v t = Inr ()"
    and "check_issued_at (current_time u v) v t = Inr ()"
    and "check_type_header v t = Inr ()"
    and "check_issuer v t = Inl e"
  shows "validate u v t = Inl e"
  using assms by (simp add: validate_eq_Inl)

lemma ignore_issuer_update:
  "current_time u (v\<lparr>ignore_issuer := b\<rparr>) = current_time u v"
  "check_missing_expiration (v\<lparr>ignore_issuer := b\<rparr>) t = check_missing_expiration v t"
  "check_expired now (v\<lparr>ignore_issuer := b\<rparr>) t = check_expired now v t"
  "check_not_before now (v\<lparr>ignore_issuer := b\<rparr>) t = check_not_before now v t"
  "check_issued_at now (v\<lparr>ignore_issuer := b\<rparr>) t = check_issued_at now v t"
  "check_type_header (v\<lparr>ignore_issuer := b\<rparr>) t = check_type_header v t"
  "check_audience (v\<lparr>ignore_issuer := b\<rparr>) t = check_audience v t"
  by (simp_all add: current_time_def has_fixed_now_def check_missing_expiration_def
      check_expired_def check_not_before_def check_issued_at_def check_type_header_def
      check_audience_def split: option.splits)

lemma validate_ignore_issuer:
  assumes "expected_issuer v = None"
    and "check_missing_expiration v t = Inr ()"
    and "check_expired (current_time u v) v t = Inr ()"
    and "check_not_before (current_time u v) v t = Inr ()"
    and "check_issued_at (current_time u v) v t = Inr ()"
    and "check_type_header v t = Inr ()"
  shows "validate u (v\<lparr>ignore_issuer := True\<rparr>) t = check_audience v t"
proof -
  have "check_issuer (v\<lparr>ignore_issuer := True\<rparr>) t = Inr ()"
    using assms(1) by (simp add: check_issuer_ok)
  then show ?thesis
    using assms(2-6) unfolding validate_def Let_def
    by (simp add: ignore_issuer_update and_then_def)
qed

text \<open>
  Claim C5. For the type header and for the issuer: when the policy expects a value, the
  check fails exactly when the token's claim is absent or is a different string; when the
  policy expects no value, the check fails exactly when the token has the claim and the
  ignore flag of the policy is false. \<open>validate\<close> raises the error of the check once the
  checks before it have passed. In particular, under a policy with no expected issuer and
  \<open>ignore_issuer\<close> false, a token with the issuer acme fails with the reason that the token
  has an issuer set; the same policy with \<open>ignore_issuer\<close> true accepts the token, when
  the audience check accepts it.
\<close>

theorem validate_type_header_issuer:
  "(expected_type_header v = Some x \<longrightarrow>
      (check_type_header v t \<noteq> Inr ()
         \<longleftrightarrow> \<not> has_type_header t \<or> (\<exists>y. type_header_claim t = Some y \<and> y \<noteq> x)))
   \<and> (expected_type_header v = None \<longrightarrow>
        (check_type_header v t \<noteq> Inr ()
           \<longleftrightarrow> has_type_header t \<and> \<not> ignore_type_header v))
   \<and> (expected_issuer v = Some x \<longrightarrow>
        (check_issuer v t \<noteq> Inr ()
           \<longleftrightarrow> \<not> has_issuer t \<or> (\<exists>y. issuer_claim t = Some y \<and> y \<noteq> x)))
   \<and> (expected_issuer v = None \<longrightarrow>
        (check_issuer v t \<noteq> Inr () \<longleftrightarrow> has_issuer t \<and> \<not> ignore_issuer v))
   \<and> (check_missing_expiration v t = Inr ()
        \<and> check_expired (current_time u v) v t = Inr ()
        \<and> check_not_before (current_time u v) v t = Inr ()
        \<and> check_issued_at (current_time u v) v t = Inr () \<longrightarrow>
        (check_type_header v t = Inl e \<longrightarrow> validate u v t = Inl e)
        \<and> (check_type_header v t = Inr () \<and> check_issuer v t = Inl e \<longrightarrow>
             validate u v t = Inl e)
        \<and> (check_type_header v t = Inr () \<and> expected_issuer v = None
             \<and> \<not> ignore_issuer v \<and> issuer_claim t = Some ''acme'' \<longrightarrow>
             validate u v t = Inl (JwtInvalidError UnexpectedIssuer)
             \<and> validate u (v\<lparr>ignore_issuer := True\<rparr>) t = check_audience v t))"
proof -
  have th_expected: "expected_type_header v = Some x \<longrightarrow>
      (check_type_header v t \<noteq> Inr ()
         \<longleftrightarrow> \<not> has_type_header t \<or> (\<exists>y. type_header_claim t = Some y \<and> y \<noteq> x))"
    by (auto simp: check_type_header_def has_type_header_def split: option.splits)
  have th_none: "expected_type_header v = None \<longrightarrow>
        (check_type_header v t \<noteq> Inr ()
           \<longleftrightarrow> has_type_header t \<and> \<not> ignore_type_header v)"
    by (simp add: check_type_header_def)
  have iss_expected: "expected_issuer v = Some x \<longrightarrow>
        (check_issuer v t \<noteq> Inr ()
           \<longleftrightarrow> \<not> has_issuer t \<or> (\<exists>y. issuer_claim t = Some y \<and> y \<noteq> x))"
    by (auto simp: check_issuer_def has_issuer_def split: option.splits)
  have iss_none: "expected_issuer v = None \<longrightarrow>
        (check_issuer v t \<noteq> Inr () \<longleftrightarrow> has_issuer t \<and> \<not> ignore_issuer v)"
    by (simp add: check_issuer_def)
  have acme: "expected_issuer v = None \<and> \<not> ignore_issuer v
        \<and> issuer_claim t = Some ''acme'' \<longrightarrow>
        check_issuer v t = Inl (JwtInvalidError UnexpectedIssuer)"
    by (simp add: check_issuer_def has_issuer_def)
  have reach: "check_missing_expiration v t = Inr ()
        \<and> check_expired (current_time u v) v t = Inr ()
        \<and> check_not_before (current_time u v) v t = Inr ()
        \<and> check_issued_at (current_time u v) v t = Inr () \<longrightarrow>
        (check_type_header v t = Inl e \<longrightarrow> validate u v t = Inl e)
        \<and> (check_type_header v t = Inr () \<and> check_issuer v t = Inl e \<longrightarrow>
             validate u v t = Inl e)
        \<and> (check_type_header v t = Inr () \<and> expected_issuer v = None
             \<and> \<not> ignore_issuer v \<and> issuer_claim t = Some ''acme'' \<longrightarrow>
             validate u v t = Inl (JwtInvalidError UnexpectedIssuer)
             \<and> validate u (v\<lparr>ignore_issuer := True\<rparr>) t = check_audience v t)"
    using acme validate_reaches_type_header [of v t u e] validate_reaches_issuer [of v t u]
      validate_ignore_issuer [of v t u]
    by blast
  from th_expected th_none iss_expected iss_none reach show ?thesis by blast
qed

theorem validate_type_header_issuer_witness:
  "expected_issuer default_policy = None
   \<and> \<not> ignore_issuer default_policy
   \<and> issuer_claim acme_token = Some ''acme''
   \<and> has_issuer acme_token
   \<and> check_missing_expiration default_policy acme_token = Inr ()
   \<and> check_expired (current_time 1000 default_policy) default_policy acme_token = Inr ()
   \<and> check_not_before (current_time 1000 default_policy) default_policy acme_token = Inr ()
   \<and> check_issued_at (current_time 1000 default_policy) default_policy acme_token = Inr ()
   \<and> check_type_header default_policy acme_token = Inr ()
   \<and> check_issuer default_policy acme_token \<noteq> Inr ()
   \<and> validate 1000 default_policy acme_token = Inl (JwtInvalidError UnexpectedIssuer)
   \<and> validate 1000 (default_policy\<lparr>ignore_issuer := True\<rparr>) acme_token = Inr ()"
  using
    validate_type_header_issuer [where u = 1000 and v = default_policy and t = acme_token]
  by (simp add: default_policy_simps current_time_clock check_missing_expiration_ok
      check_expired_utc check_absent_claim check_type_header_ok check_audience_ok
      has_issuer_def acme_token_def no_claims_def MAX_WALL_value)

subsection \<open>Construction\<close>

lemma init_Inr_fields:
  assumes "JwtValidator_init eth ei ea ith ii ia ame eip cs fn = Inr v"
  shows "expected_type_header v = eth" "expected_issuer v = ei" "expected_audience v = ea"
    "ignore_type_header v = ith" "ignore_issuer v = ii" "ignore_audiences v = ia"
    "allow_missing_expiration v = ame" "expect_issued_in_the_past v = eip"
    "clock_skew v = (case cs of None \<Rightarrow> 0 | Some c \<Rightarrow> c)" "fixed_now v = fn"
  using assms
  by (auto simp: JwtValidator_init_def truthy_timedelta_def split: if_splits option.splits)

lemma init_Inr_conditions:
  assumes "JwtValidator_init eth ei ea ith ii ia ame eip cs fn = Inr v"
  shows "\<not> (truthy_str eth \<and> ith)" "\<not> (truthy_str ei \<and> ii)" "\<not> (truthy_str ea \<and> ia)"
    "case cs of None \<Rightarrow> True | Some c \<Rightarrow> c \<le> MAX_CLOCK_SKEW"
    "case fn of None \<Rightarrow> True | Some d \<Rightarrow> tzinfo d \<noteq> None"
  using assms
  by (auto simp: JwtValidator_init_def truthy_timedelta_def truthy_tzinfo_def
      MAX_CLOCK_SKEW_def minutes_def split: if_splits option.splits)

text \<open>
  Claim C6. The claim is that construction raises a configuration error whenever an
  expected value, any string, is given together with its ignore flag. The constructor
  tests the expected value by its truth value, and the empty string is false: with the
  empty string as the expected issuer (type header, audience) and the ignore flag set,
  construction succeeds, and the policy built has both the expectation
  (\<open>has_expected_issuer\<close> tests \<^verbatim>\<open>is not None\<close>) and the ignore flag.
\<close>

theorem init_empty_expected_and_ignore:
  "new_validator None (Some '''') None False True False False False None None
     = Inr (default_policy\<lparr>expected_issuer := Some '''', ignore_issuer := True\<rparr>)
   \<and> has_expected_issuer (default_policy\<lparr>expected_issuer := Some '''', ignore_issuer := True\<rparr>)
   \<and> ignore_issuer (default_policy\<lparr>expected_issuer := Some '''', ignore_issuer := True\<rparr>)
   \<and> new_validator (Some '''') None None True False False False False None None
     = Inr (default_policy\<lparr>expected_type_header := Some '''', ignore_type_header := True\<rparr>)
   \<and> has_expected_type_header
        (default_policy\<lparr>expected_type_header := Some '''', ignore_type_header := True\<rparr>)
   \<and> ignore_type_header
        (default_policy\<lparr>expected_type_header := Some '''', ignore_type_header := True\<rparr>)
   \<and> new_validator None None (Some '''') False False True False False None None
     = Inr (default_policy\<lparr>expected_audience := Some '''', ignore_audiences := True\<rparr>)
   \<and> has_expected_audience
        (default_policy\<lparr>expected_audience := Some '''', ignore_audiences := True\<rparr>)
   \<and> ignore_audiences
        (default_policy\<lparr>expected_audience := Some '''', ignore_audiences := True\<rparr>)"
  by (simp add: new_validator_def JwtValidator_init_def truthy_str_def truthy_timedelta_def
      default_policy_def has_expected_issuer_def has_expected_type_header_def
      has_expected_audience_def)

text \<open>A non-empty expected value together with its ignore flag is rejected.\<close>

lemma init_nonempty_expected_and_ignore:
  assumes "x \<noteq> []"
  shows "\<exists>m. JwtValidator_init (Some x) ei ea True ii ia ame eip cs fn = Inl (ValueError m)"
    "\<exists>m. JwtValidator_init eth (Some x) ea ith True ia ame eip cs fn = Inl (ValueError m)"
    "\<exists>m. JwtValidator_init eth ei (Some x) ith ii True ame eip cs fn = Inl (ValueError m)"
  using assms by (simp_all add: JwtValidator_init_def truthy_str_def)

text \<open>
  Claim C7, as the source has it. The claim that every constructed policy has
  \<open>0 \<le> clock_skew\<close> fails: the constructor has an upper bound only.
\<close>

theorem init_negative_clock_skew_counterexample:
  "new_validator None None None False False False False False (Some (- 1)) None
     = Inr (default_policy\<lparr>clock_skew := - 1\<rparr>)
   \<and> clock_skew (default_policy\<lparr>clock_skew := - 1\<rparr>) < 0"
  by (simp add: new_validator_def JwtValidator_init_def truthy_str_def truthy_timedelta_def
      default_policy_def MAX_CLOCK_SKEW_def minutes_def)

text \<open>
  Claim C7, amended. Every successfully constructed policy has a clock skew of at most 10
  minutes: construction with a clock skew above 10 minutes raises a configuration error,
  construction with no clock skew stores the zero duration, and otherwise the clock skew
  given is stored as it is. So the accessor never returns more than 10 minutes, and it
  returns a non-negative duration whenever the clock skew given was absent or
  non-negative.
\<close>

theorem init_clock_skew:
  "(JwtValidator_init eth ei ea ith ii ia ame eip cs fn = Inr v \<longrightarrow>
      clock_skew v \<le> minutes 10
      \<and> (cs = None \<longrightarrow> clock_skew v = 0)
      \<and> (cs = Some c \<longrightarrow> clock_skew v = c)
      \<and> (cs = None \<or> (cs = Some c \<and> 0 \<le> c) \<longrightarrow> 0 \<le> clock_skew v))
   \<and> (cs = Some c \<and> c > minutes 10 \<longrightarrow>
        (\<exists>m. JwtValidator_init eth ei ea ith ii ia ame eip cs fn = Inl (ValueError m))
        \<and> (\<not> (truthy_str eth \<and> ith) \<and> \<not> (truthy_str ei \<and> ii) \<and> \<not> (truthy_str ea \<and> ia) \<longrightarrow>
             JwtValidator_init eth ei ea ith ii ia ame eip cs fn
               = Inl (ValueError ''clock skew too large, max is 10 minutes'')))"
proof -
  have stored: "JwtValidator_init eth ei ea ith ii ia ame eip cs fn = Inr v \<longrightarrow>
      clock_skew v \<le> minutes 10
      \<and> (cs = None \<longrightarrow> clock_skew v = 0)
      \<and> (cs = Some c \<longrightarrow> clock_skew v = c)
      \<and> (cs = None \<or> (cs = Some c \<and> 0 \<le> c) \<longrightarrow> 0 \<le> clock_skew v)"
  proof
    assume built: "JwtValidator_init eth ei ea ith ii ia ame eip cs fn = Inr v"
    have skew: "clock_skew v = (case cs of None \<Rightarrow> 0 | Some c \<Rightarrow> c)"
      using init_Inr_fields(9) [OF built] .
    have bound: "case cs of None \<Rightarrow> True | Some c \<Rightarrow> c \<le> MAX_CLOCK_SKEW"
      using init_Inr_conditions(4) [OF built] .
    show "clock_skew v \<le> minutes 10
      \<and> (cs = None \<longrightarrow> clock_skew v = 0)
      \<and> (cs = Some c \<longrightarrow> clock_skew v = c)
      \<and> (cs = None \<or> (cs = Some c \<and> 0 \<le> c) \<longrightarrow> 0 \<le> clock_skew v)"
      using skew bound by (cases cs) (auto simp: MAX_CLOCK_SKEW_def minutes_def)
  qed
  have rejected: "cs = Some c \<and> c > minutes 10 \<longrightarrow>
        (\<exists>m. JwtValidator_init eth ei ea ith ii ia ame eip cs fn = Inl (ValueError m))
        \<and> (\<not> (truthy_str eth \<and> ith) \<and> \<not> (truthy_str ei \<and> ii) \<and> \<not> (truthy_str ea \<and> ia) \<longrightarrow>
             JwtValidator_init eth ei ea ith ii ia ame eip cs fn
               = Inl (ValueError ''clock skew too large, max is 10 minutes''))"
    by (auto simp: JwtValidator_init_def truthy_timedelta_def MAX_CLOCK_SKEW_def minutes_def)
  from stored rejected show ?thesis by blast
qed

theorem init_clock_skew_witness:
  "new_validator None None None False False False False False (Some (minutes 5)) None
     = Inr (default_policy\<lparr>clock_skew := minutes 5\<rparr>)
   \<and> clock_skew (default_policy\<lparr>clock_skew := minutes 5\<rparr>) \<le> minutes 10
   \<and> 0 \<le> clock_skew (default_policy\<lparr>clock_skew := minutes 5\<rparr>)
   \<and> new_validator None None None False False False False False None None
     = Inr default_policy
   \<and> clock_skew default_policy = 0
   \<and> minutes 11 > minutes 10
   \<and> JwtValidator_init None None None False False False False False (Some (minutes 11)) None
     = Inl (ValueError ''clock skew too large, max is 10 minutes'')"
proof -
  have five: "JwtValidator_init None None None False False False False False
      (Some (minutes 5)) None = Inr (default_policy\<lparr>clock_skew := minutes 5\<rparr>)"
    by (simp add: JwtValidator_init_def truthy_str_def truthy_timedelta_def
        default_policy_def MAX_CLOCK_SKEW_def minutes_def)
  have none: "JwtValidator_init None None None False False False False False None None
      = Inr default_policy"
    by (simp add: JwtValidator_init_def truthy_str_def truthy_timedelta_def
        default_policy_def)
  have eleven: "(minutes 11 :: int) > minutes 10" by (simp add: minutes_def)
  show ?thesis
    using five none eleven
      init_clock_skew [of None None None False False False False False "Some (minutes 5)"
        None "default_policy\<lparr>clock_skew := minutes 5\<rparr>" "minutes 5"]
      init_clock_skew [of None None None False False False False False None None
        default_policy]
      init_clock_skew [of None None None False False False False False "Some (minutes 11)"
        None _ "minutes 11"]
    by (simp add: new_validator_def truthy_str_def minutes_def)
qed

lemma no_offset_policy_simps:
  "allow_missing_expiration no_offset_policy = False"
  "clock_skew no_offset_policy = 0"
  "fixed_now no_offset_policy = Some no_offset_now"
  "current_time u no_offset_policy = no_offset_now"
  by (simp_all add: no_offset_policy_def default_policy_def current_time_def
      has_fixed_now_def)

text \<open>
  Claim C8, as the source has it. The claim that a policy never holds a naive
  \<open>fixed_now\<close> fails: the constructor tests that the \<^verbatim>\<open>tzinfo\<close> attribute is set, it does
  not ask the \<^verbatim>\<open>tzinfo\<close> for an offset. A \<open>fixed_now\<close> whose \<^verbatim>\<open>tzinfo\<close> returns \<^verbatim>\<open>None\<close>
  as its offset, which makes it naive, is accepted and stored, and \<open>validate\<close> then raises
  \<^verbatim>\<open>TypeError\<close> when it compares the expiration of a token with it.
\<close>

theorem init_fixed_now_tzinfo_counterexample:
  "new_validator None None None False False False False False None (Some no_offset_now)
     = Inr no_offset_policy
   \<and> has_fixed_now no_offset_policy
   \<and> fixed_now no_offset_policy = Some no_offset_now
   \<and> utcoffset no_offset_now = None
   \<and> validate 0 no_offset_policy undated_token = Inl TypeError"
proof -
  have built: "new_validator None None None False False False False False None
      (Some no_offset_now) = Inr no_offset_policy"
    by (simp add: new_validator_def JwtValidator_init_def truthy_str_def truthy_timedelta_def
        truthy_tzinfo_def no_offset_now_def no_offset_policy_def default_policy_def)
  have naive: "utcoffset no_offset_now = None"
    by (simp add: utcoffset_def no_offset_now_def no_offset_zone_def)
  have sub: "datetime_sub no_offset_now 0 = Inr no_offset_now"
    by (simp add: datetime_sub_def datetime_add_def no_offset_now_def MAX_WALL_def nov7_def
        days_def hours_def minutes_def)
  have compare: "datetime_le (utc 2000) no_offset_now = Inl TypeError"
    using naive
    by (simp add: datetime_le_def comparison_keys_def same_tzinfo_def utc_simps
        timezone_utc_def no_offset_now_def no_offset_zone_def)
  have "check_expired no_offset_now no_offset_policy undated_token = Inl TypeError"
    using sub compare
    by (simp add: check_expired_def no_offset_policy_simps undated_token_def)
  then have outcome: "validate 0 no_offset_policy undated_token = Inl TypeError"
    by (simp add: validate_eq_Inl check_missing_expiration_ok check_missing_expiration_iff
        no_offset_policy_simps undated_token_def)
  show ?thesis
    using built naive outcome by (simp add: no_offset_policy_simps has_fixed_now_def)
qed

text \<open>
  Claim C8, amended. Construction with a \<open>fixed_now\<close> whose \<^verbatim>\<open>tzinfo\<close> attribute is
  \<^verbatim>\<open>None\<close> raises a configuration error, and in every successfully constructed policy
  that has a \<open>fixed_now\<close>, the \<^verbatim>\<open>tzinfo\<close> attribute of the \<open>fixed_now\<close> is set.
\<close>

theorem init_fixed_now_tzinfo:
  "(fn = Some d \<and> tzinfo d = None \<longrightarrow>
      (\<exists>m. JwtValidator_init eth ei ea ith ii ia ame eip cs fn = Inl (ValueError m))
      \<and> (\<not> (truthy_str eth \<and> ith) \<and> \<not> (truthy_str ei \<and> ii) \<and> \<not> (truthy_str ea \<and> ia)
          \<and> (cs = None \<or> (\<exists>c. cs = Some c \<and> c \<le> minutes 10)) \<longrightarrow>
           JwtValidator_init eth ei ea ith ii ia ame eip cs fn
             = Inl (ValueError ''fixed_now without tzinfo'')))
   \<and> (JwtValidator_init eth ei ea ith ii ia ame eip cs fn = Inr v \<and> has_fixed_now v \<longrightarrow>
        (\<exists>d z. fixed_now v = Some d \<and> tzinfo d = Some z))"
proof -
  have naive: "fn = Some d \<and> tzinfo d = None \<longrightarrow>
      (\<exists>m. JwtValidator_init eth ei ea ith ii ia ame eip cs fn = Inl (ValueError m))
      \<and> (\<not> (truthy_str eth \<and> ith) \<and> \<not> (truthy_str ei \<and> ii) \<and> \<not> (truthy_str ea \<and> ia)
          \<and> (cs = None \<or> (\<exists>c. cs = Some c \<and> c \<le> minutes 10)) \<longrightarrow>
           JwtValidator_init eth ei ea ith ii ia ame eip cs fn
             = Inl (ValueError ''fixed_now without tzinfo''))"
    by (auto simp: JwtValidator_init_def truthy_timedelta_def truthy_tzinfo_def
        MAX_CLOCK_SKEW_def)
  have aware: "JwtValidator_init eth ei ea ith ii ia ame eip cs fn = Inr v \<and> has_fixed_now v
      \<longrightarrow> (\<exists>d z. fixed_now v = Some d \<and> tzinfo d = Some z)"
  proof
    assume a: "JwtValidator_init eth ei ea ith ii ia ame eip cs fn = Inr v \<and> has_fixed_now v"
    then have built: "JwtValidator_init eth ei ea ith ii ia ame eip cs fn = Inr v" by simp
    have "fixed_now v = fn" using init_Inr_fields(10) [OF built] .
    moreover have "case fn of None \<Rightarrow> True | Some d \<Rightarrow> tzinfo d \<noteq> None"
      using init_Inr_conditions(5) [OF built] .
    moreover have "fixed_now v \<noteq> None" using a by (simp add: has_fixed_now_def)
    ultimately show "\<exists>d z. fixed_now v = Some d \<and> tzinfo d = Some z"
      by (cases fn) auto
  qed
  from naive aware show ?thesis by blast
qed

theorem init_fixed_now_tzinfo_witness:
  "tzinfo (naive 5) = None
   \<and> JwtValidator_init None None None False False False False False None (Some (naive 5))
       = Inl (ValueError ''fixed_now without tzinfo'')
   \<and> JwtValidator_init None None None False False False False False None (Some (utc 5))
       = Inr (default_policy\<lparr>fixed_now := Some (utc 5)\<rparr>)
   \<and> has_fixed_now (default_policy\<lparr>fixed_now := Some (utc 5)\<rparr>)
   \<and> fixed_now (default_policy\<lparr>fixed_now := Some (utc 5)\<rparr>) = Some (utc 5)
   \<and> tzinfo (utc 5) = Some timezone_utc"
proof -
  have built: "JwtValidator_init None None None False False False False False None
      (Some (utc 5)) = Inr (default_policy\<lparr>fixed_now := Some (utc 5)\<rparr>)"
    by (simp add: JwtValidator_init_def truthy_str_def truthy_timedelta_def
        truthy_tzinfo_def default_policy_def utc_def)
  show ?thesis
    using built
      init_fixed_now_tzinfo [of "Some (naive 5)" "naive 5" None None None False False False
        False False None]
      init_fixed_now_tzinfo [of "Some (utc 5)" _ None None None False False False
        False False None "default_policy\<lparr>fixed_now := Some (utc 5)\<rparr>"]
    by (simp add: naive_def utc_def truthy_str_def has_fixed_now_def)
qed

subsection \<open>The clock and the two objects\<close>

lemma current_time_has_fixed_now:
  "has_fixed_now v \<Longrightarrow> current_time u1 v = current_time u2 v"
  by (auto simp: current_time_def has_fixed_now_def)

lemma validate_has_fixed_now:
  "has_fixed_now v \<Longrightarrow> validate u1 v t = validate u2 v t"
  using current_time_has_fixed_now [of v u1 u2] by (simp add: validate_def)

text \<open>Each statement over the store gives the result of the check and the store as it was.\<close>

lemma statement_simps:
  "returns x s = (Inr x, s)"
  "raises e s = (Inl e, s)"
  "call (validator_method f) s = (Inr (f (validator_object s)), s)"
  "call (raw_jwt_method g) s = (Inr (g (raw_jwt_object s)), s)"
  "evaluates r s = (r, s)"
  by (simp_all add: returns_def raises_def call_def validator_method_def raw_jwt_method_def
      evaluates_def)

lemma current_time_on_eq:
  "current_time_on u s = (Inr (current_time u (validator_object s)), s)"
  by (simp add: current_time_on_def current_time_def followed_by_def statement_simps
      has_fixed_now_def split: option.splits)

lemma check_missing_expiration_on_eq:
  "check_missing_expiration_on s
     = (check_missing_expiration (validator_object s) (raw_jwt_object s), s)"
  by (simp add: check_missing_expiration_on_def check_missing_expiration_def followed_by_def
      statement_simps)

lemma check_expired_on_eq:
  "check_expired_on now s = (check_expired now (validator_object s) (raw_jwt_object s), s)"
  by (simp add: check_expired_on_def check_expired_def followed_by_def statement_simps
      has_expiration_def split: option.splits sum.splits)

lemma check_not_before_on_eq:
  "check_not_before_on now s
     = (check_not_before now (validator_object s) (raw_jwt_object s), s)"
  by (simp add: check_not_before_on_def check_not_before_def followed_by_def statement_simps
      has_not_before_def split: option.splits sum.splits)

lemma check_issued_at_on_eq:
  "check_issued_at_on now s
     = (check_issued_at now (validator_object s) (raw_jwt_object s), s)"
  by (simp add: check_issued_at_on_def check_issued_at_def followed_by_def statement_simps
      has_issued_at_def split: option.splits sum.splits)

lemma check_type_header_on_eq:
  "check_type_header_on s = (check_type_header (validator_object s) (raw_jwt_object s), s)"
  by (auto simp: check_type_header_on_def check_type_header_def followed_by_def
      statement_simps has_type_header_def has_expected_type_header_def split: option.splits)

lemma check_issuer_on_eq:
  "check_issuer_on s = (check_issuer (validator_object s) (raw_jwt_object s), s)"
  by (auto simp: check_issuer_on_def check_issuer_def followed_by_def statement_simps
      has_issuer_def has_expected_issuer_def split: option.splits)

lemma check_audience_on_eq:
  "check_audience_on s = (check_audience (validator_object s) (raw_jwt_object s), s)"
  by (auto simp: check_audience_on_def check_audience_def followed_by_def statement_simps
      has_audiences_def has_expected_audience_def split: option.splits)

lemma validate_on_eq:
  "validate_on u s = (validate u (validator_object s) (raw_jwt_object s), s)"
  by (simp add: validate_on_def validate_def Let_def followed_by_def and_then_def
      current_time_on_eq check_missing_expiration_on_eq check_expired_on_eq
      check_not_before_on_eq check_issued_at_on_eq check_type_header_on_eq
      check_issuer_on_eq check_audience_on_eq split: sum.splits)

text \<open>
  Claim C9. A call of \<open>validate\<close> leaves the policy and the token as they were: the store
  after the call is the store before it, and the outcome is that of \<open>validate\<close> on the
  two objects. When the policy has a \<open>fixed_now\<close>, the outcome is a function of the
  policy and the token alone: a second call, made on the store that the first call left
  and at another reading of the system clock, has the outcome of the first, success or
  the same error.
\<close>

theorem validate_fixed_now_deterministic:
  "snd (validate_on u s) = s
   \<and> fst (validate_on u s) = validate u (validator_object s) (raw_jwt_object s)
   \<and> (has_fixed_now (validator_object s) \<longrightarrow>
        fst (validate_on u2 (snd (validate_on u1 s))) = fst (validate_on u1 s))
   \<and> (has_fixed_now v \<longrightarrow> validate u1 v t = validate u2 v t)"
proof -
  have unchanged: "snd (validate_on u s) = s" for u
    by (simp add: validate_on_eq)
  have outcome: "fst (validate_on u s) = validate u (validator_object s) (raw_jwt_object s)"
    for u s
    by (simp add: validate_on_eq)
  have twice: "has_fixed_now (validator_object s) \<longrightarrow>
      fst (validate_on u2 (snd (validate_on u1 s))) = fst (validate_on u1 s)"
    using validate_has_fixed_now [where v = "validator_object s" and ?u1.0 = u2
        and ?u2.0 = u1 and t = "raw_jwt_object s"]
    by (simp add: unchanged outcome)
  have pure: "has_fixed_now v \<longrightarrow> validate u1 v t = validate u2 v t"
    using validate_has_fixed_now by blast
  from unchanged outcome twice pure show ?thesis by blast
qed

theorem validate_fixed_now_deterministic_witness:
  "has_fixed_now (validator_object \<lparr>validator_object = past_policy, raw_jwt_object = early_token\<rparr>)
   \<and> snd (validate_on 0 \<lparr>validator_object = past_policy, raw_jwt_object = early_token\<rparr>)
       = \<lparr>validator_object = past_policy, raw_jwt_object = early_token\<rparr>
   \<and> fst (validate_on 86400000000
            (snd (validate_on 0 \<lparr>validator_object = past_policy, raw_jwt_object = early_token\<rparr>)))
       = fst (validate_on 0 \<lparr>validator_object = past_policy, raw_jwt_object = early_token\<rparr>)
   \<and> fst (validate_on 0 \<lparr>validator_object = past_policy, raw_jwt_object = early_token\<rparr>)
       = Inl (JwtInvalidError (NotYetValid (utc 1001)))
   \<and> has_fixed_now past_policy
   \<and> validate 0 past_policy early_token = validate 86400000000 past_policy early_token"
proof -
  have fixed: "has_fixed_now past_policy"
    by (simp add: past_policy_def has_fixed_now_def)
  then have fixed_object: "has_fixed_now
      (validator_object \<lparr>validator_object = past_policy, raw_jwt_object = early_token\<rparr>)"
    by simp
  have "check_not_before (utc 1000) past_policy early_token
      = Inl (JwtInvalidError (NotYetValid (utc 1001)))"
    using check_not_before_utc [of early_token 1001 1000 past_policy]
    by (simp add: past_policy_simps past_tokens_simps MAX_WALL_value)
  then have first: "validate 0 past_policy early_token
      = Inl (JwtInvalidError (NotYetValid (utc 1001)))"
    by (simp add: validate_NotYetValid past_policy_simps past_policy_checks)
  note calls = validate_fixed_now_deterministic [where u = 0 and ?u1.0 = 0
      and ?u2.0 = 86400000000 and v = past_policy and t = early_token
      and s = "\<lparr>validator_object = past_policy, raw_jwt_object = early_token\<rparr>"]
  have unchanged: "snd (validate_on 0
        \<lparr>validator_object = past_policy, raw_jwt_object = early_token\<rparr>)
      = \<lparr>validator_object = past_policy, raw_jwt_object = early_token\<rparr>"
    using calls by blast
  have twice: "fst (validate_on 86400000000
        (snd (validate_on 0 \<lparr>validator_object = past_policy, raw_jwt_object = early_token\<rparr>)))
      = fst (validate_on 0 \<lparr>validator_object = past_policy, raw_jwt_object = early_token\<rparr>)"
    using calls fixed_object by blast
  have "fst (validate_on 0 \<lparr>validator_object = past_policy, raw_jwt_object = early_token\<rparr>)
      = validate 0 (validator_object
            \<lparr>validator_object = past_policy, raw_jwt_object = early_token\<rparr>)
          (raw_jwt_object \<lparr>validator_object = past_policy, raw_jwt_object = early_token\<rparr>)"
    using calls by blast
  then have outcome: "fst (validate_on 0
        \<lparr>validator_object = past_policy, raw_jwt_object = early_token\<rparr>)
      = Inl (JwtInvalidError (NotYetValid (utc 1001)))"
    using first by simp
  have clock: "validate 0 past_policy early_token
      = validate 86400000000 past_policy early_token"
    using calls fixed by blast
  from fixed_object unchanged twice outcome fixed clock show ?thesis
    by blast
qed

text \<open>Without a \<open>fixed_now\<close> the outcome depends on the clock.\<close>

lemma validate_reads_clock:
  "validate 1000 default_policy undated_token = Inr ()"
  "validate 2000 default_policy undated_token = Inl (JwtInvalidError (Expired (utc 2000)))"
  by (simp_all add: validate_eq_Inr validate_Expired check_missing_expiration_ok
      check_expired_utc check_absent_claim check_type_header_ok check_issuer_ok
      check_audience_ok default_policy_simps current_time_clock undated_token_def
      no_claims_def MAX_WALL_value)

subsection \<open>Empty strings as expected values\<close>

text \<open>
  Claim C10. An empty string as an expected value is an expectation, not an absent one.
  A policy constructed with the empty string as expected issuer has
  \<open>has_expected_issuer\<close>; its issuer check fails a token whose issuer is absent or is
  not the empty string, and passes only a token whose issuer is the empty string, so
  \<open>validate\<close> accepts no other token. The same holds for the type header, and for the
  audience with membership of the empty string in the token's audiences. Such a policy
  can be constructed.
\<close>

theorem empty_expected_value_honored:
  "(JwtValidator_init eth (Some '''') ea ith ii ia ame eip cs fn = Inr v \<longrightarrow>
      has_expected_issuer v
      \<and> (check_issuer v t = Inr () \<longleftrightarrow> issuer_claim t = Some '''')
      \<and> (issuer_claim t = None \<longrightarrow>
           check_issuer v t = Inl (JwtInvalidError (MissingIssuer '''')))
      \<and> (issuer_claim t = Some y \<and> y \<noteq> '''' \<longrightarrow>
           check_issuer v t = Inl (JwtInvalidError (WrongIssuer '''' y)))
      \<and> (validate u v t = Inr () \<longrightarrow> issuer_claim t = Some ''''))
   \<and> (JwtValidator_init (Some '''') ei ea ith ii ia ame eip cs fn = Inr v \<longrightarrow>
        has_expected_type_header v
        \<and> (check_type_header v t = Inr () \<longleftrightarrow> type_header_claim t = Some '''')
        \<and> (validate u v t = Inr () \<longrightarrow> type_header_claim t = Some ''''))
   \<and> (JwtValidator_init eth ei (Some '''') ith ii ia ame eip cs fn = Inr v \<longrightarrow>
        has_expected_audience v
        \<and> (check_audience v t = Inr ()
             \<longleftrightarrow> (\<exists>A. audiences_claim t = Some A \<and> '''' \<in> A))
        \<and> (validate u v t = Inr () \<longrightarrow> (\<exists>A. audiences_claim t = Some A \<and> '''' \<in> A)))
   \<and> new_validator None (Some '''') None False False False False False None None
       = Inr (default_policy\<lparr>expected_issuer := Some ''''\<rparr>)"
proof -
  have issuer: "JwtValidator_init eth (Some '''') ea ith ii ia ame eip cs fn = Inr v \<longrightarrow>
      has_expected_issuer v
      \<and> (check_issuer v t = Inr () \<longleftrightarrow> issuer_claim t = Some '''')
      \<and> (issuer_claim t = None \<longrightarrow>
           check_issuer v t = Inl (JwtInvalidError (MissingIssuer '''')))
      \<and> (issuer_claim t = Some y \<and> y \<noteq> '''' \<longrightarrow>
           check_issuer v t = Inl (JwtInvalidError (WrongIssuer '''' y)))
      \<and> (validate u v t = Inr () \<longrightarrow> issuer_claim t = Some '''')"
  proof
    assume built: "JwtValidator_init eth (Some '''') ea ith ii ia ame eip cs fn = Inr v"
    have e: "expected_issuer v = Some ''''" using init_Inr_fields(2) [OF built] .
    have ok: "check_issuer v t = Inr () \<longleftrightarrow> issuer_claim t = Some ''''"
      using e by (auto simp: check_issuer_ok)
    have "validate u v t = Inr () \<longrightarrow> check_issuer v t = Inr ()"
      by (simp add: validate_eq_Inr)
    with ok have acc: "validate u v t = Inr () \<longrightarrow> issuer_claim t = Some ''''" by simp
    show "has_expected_issuer v
      \<and> (check_issuer v t = Inr () \<longleftrightarrow> issuer_claim t = Some '''')
      \<and> (issuer_claim t = None \<longrightarrow>
           check_issuer v t = Inl (JwtInvalidError (MissingIssuer '''')))
      \<and> (issuer_claim t = Some y \<and> y \<noteq> '''' \<longrightarrow>
           check_issuer v t = Inl (JwtInvalidError (WrongIssuer '''' y)))
      \<and> (validate u v t = Inr () \<longrightarrow> issuer_claim t = Some '''')"
      using e ok acc by (auto simp: has_expected_issuer_def check_issuer_def)
  qed
  have type_header: "JwtValidator_init (Some '''') ei ea ith ii ia ame eip cs fn = Inr v \<longrightarrow>
        has_expected_type_header v
        \<and> (check_type_header v t = Inr () \<longleftrightarrow> type_header_claim t = Some '''')
        \<and> (validate u v t = Inr () \<longrightarrow> type_header_claim t = Some '''')"
  proof
    assume built: "JwtValidator_init (Some '''') ei ea ith ii ia ame eip cs fn = Inr v"
    have e: "expected_type_header v = Some ''''" using init_Inr_fields(1) [OF built] .
    have ok: "check_type_header v t = Inr () \<longleftrightarrow> type_header_claim t = Some ''''"
      using e by (auto simp: check_type_header_ok)
    have "validate u v t = Inr () \<longrightarrow> check_type_header v t = Inr ()"
      by (simp add: validate_eq_Inr)
    with ok have "validate u v t = Inr () \<longrightarrow> type_header_claim t = Some ''''" by simp
    then show "has_expected_type_header v
        \<and> (check_type_header v t = Inr () \<longleftrightarrow> type_header_claim t = Some '''')
        \<and> (validate u v t = Inr () \<longrightarrow> type_header_claim t = Some '''')"
      using e ok by (simp add: has_expected_type_header_def)
  qed
  have audience: "JwtValidator_init eth ei (Some '''') ith ii ia ame eip cs fn = Inr v \<longrightarrow>
        has_expected_audience v
        \<and> (check_audience v t = Inr ()
             \<longleftrightarrow> (\<exists>A. audiences_claim t = Some A \<and> '''' \<in> A))
        \<and> (validate u v t = Inr () \<longrightarrow> (\<exists>A. audiences_claim t = Some A \<and> '''' \<in> A))"
  proof
    assume built: "JwtValidator_init eth ei (Some '''') ith ii ia ame eip cs fn = Inr v"
    have e: "expected_audience v = Some ''''" using init_Inr_fields(3) [OF built] .
    have ok: "check_audience v t = Inr ()
        \<longleftrightarrow> (\<exists>A. audiences_claim t = Some A \<and> '''' \<in> A)"
      using e by (auto simp: check_audience_ok)
    have "validate u v t = Inr () \<longrightarrow> check_audience v t = Inr ()"
      by (simp add: validate_eq_Inr)
    with ok have "validate u v t = Inr ()
        \<longrightarrow> (\<exists>A. audiences_claim t = Some A \<and> '''' \<in> A)" by simp
    then show "has_expected_audience v
        \<and> (check_audience v t = Inr ()
             \<longleftrightarrow> (\<exists>A. audiences_claim t = Some A \<and> '''' \<in> A))
        \<and> (validate u v t = Inr () \<longrightarrow> (\<exists>A. audiences_claim t = Some A \<and> '''' \<in> A))"
      using e ok by (simp add: has_expected_audience_def)
  qed
  have built: "new_validator None (Some '''') None False False False False False None None
       = Inr (default_policy\<lparr>expected_issuer := Some ''''\<rparr>)"
    by (simp add: new_validator_def JwtValidator_init_def truthy_str_def truthy_timedelta_def
        default_policy_def)
  from issuer type_header audience built show ?thesis by blast
qed

theorem empty_expected_value_honored_witness:
  "JwtValidator_init None (Some '''') None False False False False False None None
     = Inr (default_policy\<lparr>expected_issuer := Some ''''\<rparr>)
   \<and> has_expected_issuer (default_policy\<lparr>expected_issuer := Some ''''\<rparr>)
   \<and> issuer_claim acme_token = Some ''acme''
   \<and> check_issuer (default_policy\<lparr>expected_issuer := Some ''''\<rparr>) acme_token
       = Inl (JwtInvalidError (WrongIssuer '''' ''acme''))
   \<and> issuer_claim undated_token = None
   \<and> check_issuer (default_policy\<lparr>expected_issuer := Some ''''\<rparr>) undated_token
       = Inl (JwtInvalidError (MissingIssuer ''''))
   \<and> issuer_claim empty_issuer_token = Some ''''
   \<and> check_issuer (default_policy\<lparr>expected_issuer := Some ''''\<rparr>) empty_issuer_token
       = Inr ()"
proof -
  have built: "JwtValidator_init None (Some '''') None False False False False False None None
     = Inr (default_policy\<lparr>expected_issuer := Some ''''\<rparr>)"
    by (simp add: JwtValidator_init_def truthy_str_def truthy_timedelta_def
        default_policy_def)
  show ?thesis
    using built
      empty_expected_value_honored [where eth = None and ea = None and ith = False
        and ii = False and ia = False and ame = False and eip = False and cs = None
        and fn = None and v = "default_policy\<lparr>expected_issuer := Some ''''\<rparr>"
        and t = acme_token and y = "''acme''"]
      empty_expected_value_honored [where eth = None and ea = None and ith = False
        and ii = False and ia = False and ame = False and eip = False and cs = None
        and fn = None and v = "default_policy\<lparr>expected_issuer := Some ''''\<rparr>"
        and t = undated_token]
      empty_expected_value_honored [where eth = None and ea = None and ith = False
        and ii = False and ia = False and ame = False and eip = False and cs = None
        and fn = None and v = "default_policy\<lparr>expected_issuer := Some ''''\<rparr>"
        and t = empty_issuer_token]
    by (simp add: acme_token_def undated_token_def empty_issuer_token_def no_claims_def)
qed

end
